theory Spec2Isabelle
  imports Complex_Main "HOL-Library.Multiset"
begin

section \<open>Scalars, indices and small tensors\<close>

text \<open>
  The kernels of \<^verbatim>\<open>SolidMechanicsLagrangianFEMKernels\<close> compute on \<^verbatim>\<open>real64\<close> values.
  The embedding reads \<^verbatim>\<open>real64\<close> as the exact reals: rounding, overflow and the
  non-finite values of IEEE arithmetic are outside the model, except in the last
  section, which looks at the division \<^verbatim>\<open>1.0/dt\<close> alone.

  A local array \<^verbatim>\<open>real64 A[LOCAL_DIM][LOCAL_DIM]\<close> is a function of two indices of the
  three-element type \<open>ix\<close>: \<^verbatim>\<open>LOCAL_DIM\<close> is 3 throughout (the kernels read the
  components \<^verbatim>\<open>[0][0]\<close> to \<^verbatim>\<open>[2][2]\<close> by number), so no access is out of range.
\<close>

type_synonym real64 = real

datatype ix = I0 | I1 | I2

type_synonym tensor = "ix \<Rightarrow> ix \<Rightarrow> real64"

text \<open>\<^verbatim>\<open>for(localIndex i=0; i<LOCAL_DIM; ++i) body\<close>, threading the state.\<close>

definition for_dim :: "(ix \<Rightarrow> 's \<Rightarrow> 's) \<Rightarrow> 's \<Rightarrow> 's" where
  "for_dim body s = fold body [I0, I1, I2] s"

text \<open>The assignment \<^verbatim>\<open>A[i][j] = v\<close>.\<close>

definition set2 :: "(ix \<Rightarrow> ix \<Rightarrow> 'a) \<Rightarrow> ix \<Rightarrow> ix \<Rightarrow> 'a \<Rightarrow> (ix \<Rightarrow> ix \<Rightarrow> 'a)" where
  "set2 A i j v = A(i := (A i)(j := v))"

text \<open>
  A local array declared without an initialiser. Every kernel assigns each entry
  before reading it; the model starts such an array from zeros, as it does the arrays
  declared \<^verbatim>\<open>= {{0.0}}\<close>.
\<close>

definition zeros :: tensor where
  "zeros = (\<lambda>i j. 0)"

definition identity :: tensor where
  "identity = (\<lambda>i j. if i = j then 1 else 0)"

subsection \<open>The matrix helpers of MatrixMath\_impl.hpp\<close>

text \<open>
  Modelled from the spec: \<^verbatim>\<open>det\<close>, \<^verbatim>\<open>Finverse\<close>, \<^verbatim>\<open>AijBjk\<close>, \<^verbatim>\<open>AijBkj\<close>
  and \<^verbatim>\<open>HughesWinget\<close> are defined in \<^verbatim>\<open>MatrixMath_impl.hpp\<close>, which the kernels
  include and which is not among the sources. The spec calls them the determinant and
  the inverse of the deformation gradient, the products \<open>Q\<cdot>S\<close> and \<open>Q\<cdot>S\<^sup>t\<close> (the index
  names say which index is summed), and the Hughes-Winget decomposition.
\<close>

definition nxt :: "ix \<Rightarrow> ix" where
  "nxt i = (case i of I0 \<Rightarrow> I1 | I1 \<Rightarrow> I2 | I2 \<Rightarrow> I0)"

definition det :: "tensor \<Rightarrow> real64" where
  "det A = A I0 I0 * (A I1 I1 * A I2 I2 - A I1 I2 * A I2 I1)
         - A I0 I1 * (A I1 I0 * A I2 I2 - A I1 I2 * A I2 I0)
         + A I0 I2 * (A I1 I0 * A I2 I1 - A I1 I1 * A I2 I0)"

text \<open>The cofactor of the entry \<open>(i, j)\<close>, its sign included by the cyclic indexing.\<close>

definition cofactor :: "tensor \<Rightarrow> ix \<Rightarrow> ix \<Rightarrow> real64" where
  "cofactor A i j = A (nxt i) (nxt j) * A (nxt (nxt i)) (nxt (nxt j))
                  - A (nxt i) (nxt (nxt j)) * A (nxt (nxt i)) (nxt j)"

definition Finverse :: "tensor \<Rightarrow> tensor" where
  "Finverse A = (let o1 = 1 / det A in (\<lambda>i j. cofactor A j i * o1))"

definition AijBjk :: "tensor \<Rightarrow> tensor \<Rightarrow> tensor" where
  "AijBjk A B = (\<lambda>i k. A i I0 * B I0 k + A i I1 * B I1 k + A i I2 * B I2 k)"

definition AijBkj :: "tensor \<Rightarrow> tensor \<Rightarrow> tensor" where
  "AijBkj A B = (\<lambda>i k. A i I0 * B k I0 + A i I1 * B k I1 + A i I2 * B k I2)"

text \<open>
  Modelled from the spec: \<^verbatim>\<open>HughesWinget(Rot, Dadt, L, dt)\<close>. The spec has it split
  \<open>L\<close> into the symmetric rate of deformation \<open>D\<close> and the skew spin \<open>W\<close>, return
  \<open>Dadt = D\<cdot>dt\<close> and build the incremental rotation from \<open>W\<cdot>dt\<close>; the rotation
  is the one of the Hughes-Winget scheme the spec names,
  \<open>(I - W\<cdot>dt/2)\<^sup>-\<^sup>1 \<cdot> (I + W\<cdot>dt/2)\<close>. The result is the pair \<open>(Rot, Dadt)\<close>.
\<close>

definition HughesWinget :: "tensor \<Rightarrow> real64 \<Rightarrow> tensor \<times> tensor" where
  "HughesWinget L dt =
     (let Omega = (\<lambda>i j. 0.5 * (L i j - L j i));
          Dadt = (\<lambda>i j. 0.5 * (L i j + L j i) * dt);
          IpR = (\<lambda>i j. identity i j + 0.5 * dt * Omega i j);
          ImR = (\<lambda>i j. identity i j - 0.5 * dt * Omega i j);
          Rot = AijBjk (Finverse ImR) IpR
      in (Rot, Dadt))"

subsection \<open>The kinematic block of a quadrature point\<close>

text \<open>
  The first loop of the block, \<^verbatim>\<open>dvdX[ty][tx] = dUhatdX[ty][tx]*(1.0/dt)\<close>. It only
  multiplies and divides, and is written for any scalar type that can, so that the last
  section can run it on values that may be infinite or not a number.
\<close>

definition calc_dvdX ::
  "(ix \<Rightarrow> ix \<Rightarrow> 'a) \<Rightarrow> 'a \<Rightarrow> (ix \<Rightarrow> ix \<Rightarrow> 'a) \<Rightarrow> (ix \<Rightarrow> ix \<Rightarrow> 'a::{one,times,inverse})" where
  "calc_dvdX dUhatdX dt dvdX =
     for_dim (\<lambda>ty. for_dim (\<lambda>tx dvdX. set2 dvdX ty tx (dUhatdX ty tx * (1 / dt)))) dvdX"

text \<open>
  The block every kernel repeats between the two \<^verbatim>\<open>CalculateGradient\<close> calls and
  \<^verbatim>\<open>HughesWinget\<close>: the velocity gradient \<open>L\<close> from the mid-step \<open>F\<close>, then \<open>F\<close>
  overwritten by the end-of-step gradient, whose determinant and inverse are kept.
  The result is \<open>(L, detF, Finv)\<close>.
\<close>

definition point_kinematics :: "tensor \<Rightarrow> tensor \<Rightarrow> real64 \<Rightarrow> tensor \<times> real64 \<times> tensor" where
  "point_kinematics dUdX dUhatdX dt =
     (let F = zeros; dvdX = zeros;
          dvdX = calc_dvdX dUhatdX dt dvdX;
          F = for_dim (\<lambda>row. for_dim (\<lambda>col F. set2 F row col (dUhatdX row col))) F;
          F = for_dim (\<lambda>row. for_dim (\<lambda>col F. set2 F row col (F row col * 0.5))) F;
          F = for_dim (\<lambda>row. for_dim (\<lambda>col F. set2 F row col (F row col + dUdX row col))) F;
          F = for_dim (\<lambda>tx F. set2 F tx tx (F tx tx + 1.0)) F;
          Finv = Finverse F;
          L = AijBjk dvdX Finv;
          F = for_dim (\<lambda>ty. for_dim (\<lambda>tx F.
                   set2 F ty tx (dUhatdX ty tx + dUdX ty tx))) F;
          F = for_dim (\<lambda>tx F. set2 F tx tx (F tx tx + 1.0)) F;
          detF = det F;
          Finv = Finverse F
      in (L, detF, Finv))"

section \<open>Per-point material state and the linear-elastic update\<close>

text \<open>
  \<^verbatim>\<open>idevStressData(k,q,c)\<close> holds the six stored components of the deviatoric stress
  of the point \<open>(k, q)\<close>; \<^verbatim>\<open>imeanStress[m]\<close> holds the mean stress of the material
  index \<open>m\<close>. The accessors are macros of \<^verbatim>\<open>Layout.hpp\<close>; the model takes the arrays
  as functions of the indices, so different index tuples are different cells.
\<close>

type_synonym arr = "nat \<Rightarrow> real64"

record stress =
  idevStressData :: "nat \<Rightarrow> nat \<Rightarrow> arr"
  imeanStress :: arr

text \<open>The assignment \<^verbatim>\<open>idevStressData(k,q,c) = v\<close>.\<close>

definition set3 :: "(nat \<Rightarrow> nat \<Rightarrow> arr) \<Rightarrow> nat \<Rightarrow> nat \<Rightarrow> nat \<Rightarrow> real64 \<Rightarrow> nat \<Rightarrow> nat \<Rightarrow> arr" where
  "set3 D k q c v = D(k := (D k)(q := (D k q)(c := v)))"

text \<open>
  The nine assignments with which every kernel reads the six stored components into a
  local tensor: the lower triangle from the store, the upper triangle mirrored.
\<close>

definition read_symmetric :: "arr \<Rightarrow> tensor" where
  "read_symmetric d =
     (let T = zeros;
          T = set2 T I0 I0 (d 0);
          T = set2 T I1 I0 (d 1);
          T = set2 T I1 I1 (d 2);
          T = set2 T I2 I0 (d 3);
          T = set2 T I2 I1 (d 4);
          T = set2 T I2 I2 (d 5);
          T = set2 T I0 I1 (T I1 I0);
          T = set2 T I0 I2 (T I2 I0);
          T = set2 T I1 I2 (T I2 I1)
      in T)"

text \<open>The total stress a kernel assembles for \<^verbatim>\<open>Integrate\<close>.\<close>

definition assemble_TotalStress :: "stress \<Rightarrow> nat \<Rightarrow> nat \<Rightarrow> nat \<Rightarrow> tensor" where
  "assemble_TotalStress S k q m =
     (let TotalStress = read_symmetric (idevStressData S k q);
          TotalStress = for_dim (\<lambda>i T. set2 T i i (T i i + imeanStress S m)) TotalStress
      in TotalStress)"

text \<open>
  The body of \<^verbatim>\<open>ConstitutiveUpdateKernel\<close> for the element \<open>k\<close> and the quadrature point
  \<open>q\<close>. \<^verbatim>\<open>Dadt_ptr(k,q,r,c)\<close> and \<^verbatim>\<open>Rot_ptr(k,q,r,c)\<close> are the per-point buffers of the
  kinematic kernel.
\<close>

type_synonym tensor_buffer = "nat \<Rightarrow> nat \<Rightarrow> tensor"

definition ConstitutiveUpdate_point ::
  "tensor_buffer \<Rightarrow> tensor_buffer \<Rightarrow> (nat \<Rightarrow> nat \<Rightarrow> nat) \<Rightarrow> real64 \<Rightarrow> real64 \<Rightarrow>
   nat \<Rightarrow> nat \<Rightarrow> stress \<Rightarrow> stress" where
  "ConstitutiveUpdate_point Dadt_ptr Rot_ptr iconstitutiveMap shearModulus bulkModulus k q S =
     (let m = iconstitutiveMap k q;
          volumeStrain = Dadt_ptr k q I0 I0 + Dadt_ptr k q I1 I1 + Dadt_ptr k q I2 I2;
          mean = (imeanStress S)(m := imeanStress S m + volumeStrain * bulkModulus);
          temp = for_dim (\<lambda>i temp.
                   let temp = for_dim (\<lambda>j temp. set2 temp i j (Dadt_ptr k q i j)) temp
                   in set2 temp i i (temp i i - volumeStrain / 3.0)) zeros;
          temp = for_dim (\<lambda>ty. for_dim (\<lambda>tx temp.
                   set2 temp ty tx (temp ty tx * (2.0 * shearModulus)))) temp;
          dev = idevStressData S;
          dev = set3 dev k q 0 (dev k q 0 + temp I0 I0);
          dev = set3 dev k q 1 (dev k q 1 + temp I1 I0);
          dev = set3 dev k q 2 (dev k q 2 + temp I1 I1);
          dev = set3 dev k q 3 (dev k q 3 + temp I2 I0);
          dev = set3 dev k q 4 (dev k q 4 + temp I2 I1);
          dev = set3 dev k q 5 (dev k q 5 + temp I2 I2);
          localDevStress = read_symmetric (dev k q);
          Rot = for_dim (\<lambda>r. for_dim (\<lambda>c Rot. set2 Rot r c (Rot_ptr k q r c))) zeros;
          temp = AijBjk Rot localDevStress;
          localDevStress = AijBkj temp Rot;
          dev = set3 dev k q 0 (localDevStress I0 I0);
          dev = set3 dev k q 1 (localDevStress I1 I0);
          dev = set3 dev k q 2 (localDevStress I1 I1);
          dev = set3 dev k q 3 (localDevStress I2 I0);
          dev = set3 dev k q 4 (localDevStress I2 I1);
          dev = set3 dev k q 5 (localDevStress I2 I2)
      in \<lparr>idevStressData = dev, imeanStress = mean\<rparr>)"

text \<open>
  The loops of \<^verbatim>\<open>geosx::forall_in_set<Pol>(elemList, noElem, body)\<close> (of the RAJA
  interface, not among the sources) and of a counter below a bound. The policy may run
  the iterations of the first in parallel; the model runs them one after the other, in
  the order of the list.
\<close>

definition forall_in_set :: "(nat \<Rightarrow> nat) \<Rightarrow> nat \<Rightarrow> (nat \<Rightarrow> 's \<Rightarrow> 's) \<Rightarrow> 's \<Rightarrow> 's" where
  "forall_in_set elemList noElem body s = fold body (map elemList [0..<noElem]) s"

definition for_upto :: "nat \<Rightarrow> (nat \<Rightarrow> 's \<Rightarrow> 's) \<Rightarrow> 's \<Rightarrow> 's" where
  "for_upto n body s = fold body [0..<n] s"

definition ConstitutiveUpdateKernel ::
  "nat \<Rightarrow> nat \<Rightarrow> (nat \<Rightarrow> nat) \<Rightarrow> tensor_buffer \<Rightarrow> tensor_buffer \<Rightarrow> (nat \<Rightarrow> nat \<Rightarrow> nat) \<Rightarrow>
   real64 \<Rightarrow> real64 \<Rightarrow> stress \<Rightarrow> stress" where
  "ConstitutiveUpdateKernel NUMQUADPTS noElem elemList Dadt_ptr Rot_ptr iconstitutiveMap
     shearModulus bulkModulus S =
     forall_in_set elemList noElem (\<lambda>k.
       for_upto NUMQUADPTS (\<lambda>q.
         ConstitutiveUpdate_point Dadt_ptr Rot_ptr iconstitutiveMap shearModulus bulkModulus k q)) S"

text \<open>
  The type \<^verbatim>\<open>constUpdate\<close> of the function pointer \<^verbatim>\<open>updateState_ptr\<close>: it receives
  \<^verbatim>\<open>(Dadt, Rot, m, q, k, idevStressData, imeanStress, shearModulus, bulkModulus)\<close> and
  mutates the two stress arrays, which the model returns.
\<close>

type_synonym constUpdate =
  "tensor \<Rightarrow> tensor \<Rightarrow> nat \<Rightarrow> nat \<Rightarrow> nat \<Rightarrow> stress \<Rightarrow> real64 \<Rightarrow> real64 \<Rightarrow> stress"

text \<open>
  Modelled from the spec: \<^verbatim>\<open>UpdateStatePoint\<close> of \<^verbatim>\<open>ConstitutiveUpdate_impl.hpp\<close>, the
  linear-elastic update the monolithic kernels receive through \<^verbatim>\<open>updateState_ptr\<close>,
  is not among the sources. In the spec's words: the mean stress gains
  \<open>trace(Dadt)\<cdot>bulkModulus\<close>, the deviatoric stress gains
  \<open>2\<cdot>shearModulus\<cdot>(Dadt - trace(Dadt)/3\<cdot>I)\<close>, and the updated deviatoric stress \<open>S\<close>
  is replaced by \<open>Rot\<cdot>S\<cdot>Rot\<^sup>t\<close>. The six components are stored in the order the
  kernels read them back.
\<close>

definition trace :: "tensor \<Rightarrow> real64" where
  "trace A = A I0 I0 + A I1 I1 + A I2 I2"

definition store_symmetric :: "tensor \<Rightarrow> arr \<Rightarrow> arr" where
  "store_symmetric T d =
     d(0 := T I0 I0, 1 := T I1 I0, 2 := T I1 I1, 3 := T I2 I0, 4 := T I2 I1, 5 := T I2 I2)"

definition deviatoric_increment :: "tensor \<Rightarrow> real64 \<Rightarrow> tensor" where
  "deviatoric_increment Dadt shearModulus =
     (\<lambda>i j. 2 * shearModulus * (Dadt i j - trace Dadt / 3 * identity i j))"

definition rotate :: "tensor \<Rightarrow> tensor \<Rightarrow> tensor" where
  "rotate Rot S = AijBkj (AijBjk Rot S) Rot"

definition UpdateStatePoint :: constUpdate where
  "UpdateStatePoint Dadt Rot m q k S shearModulus bulkModulus =
     (let d = idevStressData S k q;
          incremented = store_symmetric
            (\<lambda>i j. read_symmetric d i j + deviatoric_increment Dadt shearModulus i j) d;
          rotated = store_symmetric (rotate Rot (read_symmetric incremented)) incremented
      in \<lparr>idevStressData = (idevStressData S)(k := (idevStressData S k)(q := rotated)),
          imeanStress = (imeanStress S)(m := imeanStress S m + trace Dadt * bulkModulus)\<rparr>)"

section \<open>The gather, gradient, integration and scatter helpers\<close>

text \<open>
  Modelled from the spec: \<^verbatim>\<open>GlobalToLocal\<close>, \<^verbatim>\<open>CalculateGradient\<close>, \<^verbatim>\<open>Integrate\<close> and
  \<^verbatim>\<open>AddLocalToGlobal\<close> are called by the kernels and defined in headers that are not
  among the sources. The spec gives their contracts: the gather copies the values of
  the element's nodes into the local buffers; the gradient of a field is the sum over
  the nodes of \<open>field[node] \<otimes> \<nabla>N[node]\<close>, added to the array it is given; the integration
  adds \<open>detJ\<cdot>detF\<cdot>TotalStress\<cdot>Finv\<^sup>t\<cdot>\<nabla>N[node]\<close> to the local force of each node; the
  scatter adds the local force of each node to the global slot of that node.
  \<^verbatim>\<open>NODESPERELEM\<close> is a macro of \<^verbatim>\<open>Layout.hpp\<close>, an argument here. The first family is
  the one for the object-of-arrays layout, one array per Cartesian component.
\<close>

type_synonym shape_array = "nat \<Rightarrow> nat \<Rightarrow> nat \<Rightarrow> real64"

definition xyz :: "'a \<Rightarrow> 'a \<Rightarrow> 'a \<Rightarrow> ix \<Rightarrow> 'a" where
  "xyz x y z i = (case i of I0 \<Rightarrow> x | I1 \<Rightarrow> y | I2 \<Rightarrow> z)"

definition gather :: "(nat \<Rightarrow> nat) \<Rightarrow> nat \<Rightarrow> (nat \<Rightarrow> 'a) \<Rightarrow> (nat \<Rightarrow> 'a) \<Rightarrow> (nat \<Rightarrow> 'a)" where
  "gather nodeList n global local0 = for_upto n (\<lambda>a loc. loc(a := global (nodeList a))) local0"

definition GlobalToLocal ::
  "(nat \<Rightarrow> nat) \<Rightarrow> nat \<Rightarrow> arr \<Rightarrow> arr \<Rightarrow> arr \<Rightarrow> arr \<Rightarrow> arr \<Rightarrow> arr \<Rightarrow>
   arr \<times> arr \<times> arr \<times> arr \<times> arr \<times> arr" where
  "GlobalToLocal nodeList n u_x u_y u_z uhat_x uhat_y uhat_z =
     (gather nodeList n u_x (\<lambda>a. 0), gather nodeList n u_y (\<lambda>a. 0),
      gather nodeList n u_z (\<lambda>a. 0), gather nodeList n uhat_x (\<lambda>a. 0),
      gather nodeList n uhat_y (\<lambda>a. 0), gather nodeList n uhat_z (\<lambda>a. 0))"

definition CalculateGradient ::
  "tensor \<Rightarrow> arr \<Rightarrow> arr \<Rightarrow> arr \<Rightarrow> shape_array \<Rightarrow> shape_array \<Rightarrow> shape_array \<Rightarrow>
   nat \<Rightarrow> nat \<Rightarrow> nat \<Rightarrow> tensor" where
  "CalculateGradient G u_x u_y u_z dNdX_x dNdX_y dNdX_z k q n =
     for_upto n (\<lambda>a G. (\<lambda>i j. G i j + xyz u_x u_y u_z i a * xyz dNdX_x dNdX_y dNdX_z j k q a)) G"

definition Integrate ::
  "arr \<Rightarrow> arr \<Rightarrow> arr \<Rightarrow> real64 \<Rightarrow> real64 \<Rightarrow> tensor \<Rightarrow> tensor \<Rightarrow>
   shape_array \<Rightarrow> shape_array \<Rightarrow> shape_array \<Rightarrow> nat \<Rightarrow> nat \<Rightarrow> nat \<Rightarrow> arr \<times> arr \<times> arr" where
  "Integrate f_x f_y f_z detJ detF Finv TotalStress dNdX_x dNdX_y dNdX_z k q n =
     (let P = AijBkj TotalStress Finv;
          force = (\<lambda>i a. detJ * detF *
            (P i I0 * dNdX_x k q a + P i I1 * dNdX_y k q a + P i I2 * dNdX_z k q a))
      in for_upto n (\<lambda>a (f_x, f_y, f_z).
           (f_x(a := f_x a + force I0 a), f_y(a := f_y a + force I1 a),
            f_z(a := f_z a + force I2 a))) (f_x, f_y, f_z))"

definition scatter_add :: "(nat \<Rightarrow> nat) \<Rightarrow> nat \<Rightarrow> (nat \<Rightarrow> 'a) \<Rightarrow> (nat \<Rightarrow> 'a::plus) \<Rightarrow> (nat \<Rightarrow> 'a)" where
  "scatter_add nodeList n f_local acc =
     for_upto n (\<lambda>a acc. acc(nodeList a := acc (nodeList a) + f_local a)) acc"

definition AddLocalToGlobal ::
  "(nat \<Rightarrow> nat) \<Rightarrow> nat \<Rightarrow> (nat \<Rightarrow> 'a) \<Rightarrow> (nat \<Rightarrow> 'a) \<Rightarrow> (nat \<Rightarrow> 'a) \<Rightarrow>
   (nat \<Rightarrow> 'a::plus) \<times> (nat \<Rightarrow> 'a) \<times> (nat \<Rightarrow> 'a) \<Rightarrow> (nat \<Rightarrow> 'a) \<times> (nat \<Rightarrow> 'a) \<times> (nat \<Rightarrow> 'a)" where
  "AddLocalToGlobal nodeList n f_x f_y f_z = (\<lambda>(acc_x, acc_y, acc_z).
     (scatter_add nodeList n f_x acc_x, scatter_add nodeList n f_y acc_y,
      scatter_add nodeList n f_z acc_z))"

text \<open>
  The second family is the one for the array-of-objects layout,
  \<^verbatim>\<open>u = [x_0, y_0, z_0, x_1, ...]\<close>: the model indexes such an array by the node and the
  component.
\<close>

type_synonym node_array = "nat \<Rightarrow> ix \<Rightarrow> real64"

definition GlobalToLocal_AoO ::
  "(nat \<Rightarrow> nat) \<Rightarrow> nat \<Rightarrow> node_array \<Rightarrow> node_array \<Rightarrow> node_array \<times> node_array" where
  "GlobalToLocal_AoO nodeList n u uhat =
     (gather nodeList n u (\<lambda>a i. 0), gather nodeList n uhat (\<lambda>a i. 0))"

definition CalculateGradient_AoO ::
  "tensor \<Rightarrow> node_array \<Rightarrow> (nat \<Rightarrow> nat \<Rightarrow> node_array) \<Rightarrow> nat \<Rightarrow> nat \<Rightarrow> nat \<Rightarrow> tensor" where
  "CalculateGradient_AoO G u dNdX k q n =
     for_upto n (\<lambda>a G. (\<lambda>i j. G i j + u a i * dNdX k q a j)) G"

definition Integrate_AoO ::
  "node_array \<Rightarrow> real64 \<Rightarrow> real64 \<Rightarrow> tensor \<Rightarrow> tensor \<Rightarrow> (nat \<Rightarrow> nat \<Rightarrow> node_array) \<Rightarrow>
   nat \<Rightarrow> nat \<Rightarrow> nat \<Rightarrow> node_array" where
  "Integrate_AoO f detJ detF Finv TotalStress dNdX k q n =
     (let P = AijBkj TotalStress Finv
      in for_upto n (\<lambda>a f. f(a := (\<lambda>i. f a i + detJ * detF *
           (P i I0 * dNdX k q a I0 + P i I1 * dNdX k q a I1 + P i I2 * dNdX k q a I2)))) f)"

definition AddLocalToGlobal_AoO ::
  "(nat \<Rightarrow> nat) \<Rightarrow> nat \<Rightarrow> node_array \<Rightarrow> node_array \<Rightarrow> node_array" where
  "AddLocalToGlobal_AoO nodeList n f_local acc =
     for_upto n (\<lambda>a acc. acc(nodeList a := (\<lambda>i. acc (nodeList a) i + f_local a i))) acc"

section \<open>The kernels\<close>

text \<open>
  The parameters the kernels share. \<^verbatim>\<open>NODESPERELEM\<close> and \<^verbatim>\<open>NUMQUADPTS\<close> are macros of
  \<^verbatim>\<open>Layout.hpp\<close>, taken as parameters. The model follows the branch without
  \<^verbatim>\<open>STRUCTURED_GRID\<close>: the node list of the element \<open>k\<close> is
  \<^verbatim>\<open>&elemsToNodes[NODESPERELEM*k]\<close>.
\<close>

record kernel_args =
  NODESPERELEM :: nat
  NUMQUADPTS :: nat
  noElem :: nat
  elemList :: "nat \<Rightarrow> nat"
  dt :: real64
  elemsToNodes :: "nat \<Rightarrow> nat"
  iconstitutiveMap :: "nat \<Rightarrow> nat \<Rightarrow> nat"
  ishearModulus :: real64
  ibulkModulus :: real64
  idetJ :: "nat \<Rightarrow> nat \<Rightarrow> real64"

record OoA_args = kernel_args +
  iu_x :: arr
  iu_y :: arr
  iu_z :: arr
  iuhat_x :: arr
  iuhat_y :: arr
  iuhat_z :: arr
  idNdX_x :: shape_array
  idNdX_y :: shape_array
  idNdX_z :: shape_array

record AoO_args = kernel_args +
  iu :: node_array
  iuhat :: node_array
  idNdX :: "nat \<Rightarrow> nat \<Rightarrow> node_array"

definition nodeList_of :: "'a kernel_args_scheme \<Rightarrow> nat \<Rightarrow> nat \<Rightarrow> nat" where
  "nodeList_of A k = (\<lambda>a. elemsToNodes A (NODESPERELEM A * k + a))"

subsection \<open>ObjectOfArraysKernel\<close>

text \<open>
  The body of the quadrature loop of \<^verbatim>\<open>ObjectOfArraysKernel\<close>: it carries the stress
  arrays and the three local force buffers of the element.
\<close>

definition OoA_gradients ::
  "OoA_args \<Rightarrow> nat \<Rightarrow> nat \<Rightarrow> arr \<times> arr \<times> arr \<times> arr \<times> arr \<times> arr \<Rightarrow> tensor \<times> tensor" where
  "OoA_gradients A k q =
     (\<lambda>(u_local_x, u_local_y, u_local_z, uhat_local_x, uhat_local_y, uhat_local_z).
       (CalculateGradient zeros u_local_x u_local_y u_local_z
          (idNdX_x A) (idNdX_y A) (idNdX_z A) k q (NODESPERELEM A),
        CalculateGradient zeros uhat_local_x uhat_local_y uhat_local_z
          (idNdX_x A) (idNdX_y A) (idNdX_z A) k q (NODESPERELEM A)))"

definition OoA_point ::
  "OoA_args \<Rightarrow> constUpdate \<Rightarrow> nat \<Rightarrow> arr \<times> arr \<times> arr \<times> arr \<times> arr \<times> arr \<Rightarrow> nat \<Rightarrow>
   stress \<times> arr \<times> arr \<times> arr \<Rightarrow> stress \<times> arr \<times> arr \<times> arr" where
  "OoA_point A updateState_ptr k locals q = (\<lambda>(S, f_local_x, f_local_y, f_local_z).
     (let (dUdX, dUhatdX) = OoA_gradients A k q locals;
          (L, detF, Finv) = point_kinematics dUdX dUhatdX (dt A);
          (Rot, Dadt) = HughesWinget L (dt A);
          m = iconstitutiveMap A k q;
          S = updateState_ptr Dadt Rot m q k S (ishearModulus A) (ibulkModulus A);
          TotalStress = assemble_TotalStress S k q m;
          (f_local_x, f_local_y, f_local_z) =
             Integrate f_local_x f_local_y f_local_z (idetJ A k q) detF Finv TotalStress
               (idNdX_x A) (idNdX_y A) (idNdX_z A) k q (NODESPERELEM A)
      in (S, f_local_x, f_local_y, f_local_z)))"

text \<open>The body of the element loop: gather, quadrature loop, scatter.\<close>

definition OoA_element ::
  "OoA_args \<Rightarrow> constUpdate \<Rightarrow> nat \<Rightarrow> stress \<times> (arr \<times> arr \<times> arr) \<Rightarrow> stress \<times> (arr \<times> arr \<times> arr)" where
  "OoA_element A updateState_ptr k = (\<lambda>(S, iacc).
     (let nodeList = nodeList_of A k;
          locals = GlobalToLocal nodeList (NODESPERELEM A)
                     (iu_x A) (iu_y A) (iu_z A) (iuhat_x A) (iuhat_y A) (iuhat_z A);
          (S, f_local_x, f_local_y, f_local_z) =
             for_upto (NUMQUADPTS A) (OoA_point A updateState_ptr k locals)
               (S, (\<lambda>a. 0), (\<lambda>a. 0), (\<lambda>a. 0))
      in (S, AddLocalToGlobal nodeList (NODESPERELEM A) f_local_x f_local_y f_local_z iacc)))"

definition ObjectOfArraysKernel ::
  "OoA_args \<Rightarrow> constUpdate \<Rightarrow> stress \<times> (arr \<times> arr \<times> arr) \<Rightarrow> stress \<times> (arr \<times> arr \<times> arr)" where
  "ObjectOfArraysKernel A updateState_ptr =
     forall_in_set (elemList A) (noElem A) (OoA_element A updateState_ptr)"

subsection \<open>ArrayOfObjectsKernel\<close>

definition AoO_gradients :: "AoO_args \<Rightarrow> nat \<Rightarrow> nat \<Rightarrow> node_array \<times> node_array \<Rightarrow> tensor \<times> tensor" where
  "AoO_gradients A k q = (\<lambda>(u_local, uhat_local).
     (CalculateGradient_AoO zeros u_local (idNdX A) k q (NODESPERELEM A),
      CalculateGradient_AoO zeros uhat_local (idNdX A) k q (NODESPERELEM A)))"

definition AoO_point ::
  "AoO_args \<Rightarrow> constUpdate \<Rightarrow> nat \<Rightarrow> node_array \<times> node_array \<Rightarrow> nat \<Rightarrow>
   stress \<times> node_array \<Rightarrow> stress \<times> node_array" where
  "AoO_point A updateState_ptr k locals q = (\<lambda>(S, f_local).
     (let (dUdX, dUhatdX) = AoO_gradients A k q locals;
          (L, detF, Finv) = point_kinematics dUdX dUhatdX (dt A);
          (Rot, Dadt) = HughesWinget L (dt A);
          m = iconstitutiveMap A k q;
          S = updateState_ptr Dadt Rot m q k S (ishearModulus A) (ibulkModulus A);
          TotalStress = assemble_TotalStress S k q m;
          f_local = Integrate_AoO f_local (idetJ A k q) detF Finv TotalStress
                      (idNdX A) k q (NODESPERELEM A)
      in (S, f_local)))"

definition AoO_element ::
  "AoO_args \<Rightarrow> constUpdate \<Rightarrow> nat \<Rightarrow> stress \<times> node_array \<Rightarrow> stress \<times> node_array" where
  "AoO_element A updateState_ptr k = (\<lambda>(S, iacc).
     (let nodeList = nodeList_of A k;
          locals = GlobalToLocal_AoO nodeList (NODESPERELEM A) (iu A) (iuhat A);
          (S, f_local) =
             for_upto (NUMQUADPTS A) (AoO_point A updateState_ptr k locals) (S, (\<lambda>a i. 0))
      in (S, AddLocalToGlobal_AoO nodeList (NODESPERELEM A) f_local iacc)))"

definition ArrayOfObjectsKernel ::
  "AoO_args \<Rightarrow> constUpdate \<Rightarrow> stress \<times> node_array \<Rightarrow> stress \<times> node_array" where
  "ArrayOfObjectsKernel A updateState_ptr =
     forall_in_set (elemList A) (noElem A) (AoO_element A updateState_ptr)"

subsection \<open>The split kernels of the array-of-objects layout\<close>

text \<open>The per-point buffers the kinematic kernel writes and the other two read.\<close>

record buffers =
  Dadt_ptr :: tensor_buffer
  Rot_ptr :: tensor_buffer
  detF_ptr :: "nat \<Rightarrow> nat \<Rightarrow> real64"
  Finv_ptr :: tensor_buffer

text \<open>The assignment \<^verbatim>\<open>B(k,q,r,c) = v\<close>.\<close>

definition set4 :: "tensor_buffer \<Rightarrow> nat \<Rightarrow> nat \<Rightarrow> ix \<Rightarrow> ix \<Rightarrow> real64 \<Rightarrow> tensor_buffer" where
  "set4 B k q r c v = B(k := (B k)(q := set2 (B k q) r c v))"

definition AoO_Kinematic_point ::
  "AoO_args \<Rightarrow> nat \<Rightarrow> node_array \<times> node_array \<Rightarrow> nat \<Rightarrow> buffers \<Rightarrow> buffers" where
  "AoO_Kinematic_point A k locals q B =
     (let (dUdX, dUhatdX) = AoO_gradients A k q locals;
          (L, detF, Finv) = point_kinematics dUdX dUhatdX (dt A);
          (Rot, Dadt) = HughesWinget L (dt A);
          B = B\<lparr>detF_ptr := (detF_ptr B)(k := (detF_ptr B k)(q := detF))\<rparr>
      in for_dim (\<lambda>r. for_dim (\<lambda>c B.
           B\<lparr>Dadt_ptr := set4 (Dadt_ptr B) k q r c (Dadt r c),
             Rot_ptr := set4 (Rot_ptr B) k q r c (Rot r c),
             Finv_ptr := set4 (Finv_ptr B) k q r c (Finv r c)\<rparr>)) B)"

definition ArrayOfObjects_KinematicKernel :: "AoO_args \<Rightarrow> buffers \<Rightarrow> buffers" where
  "ArrayOfObjects_KinematicKernel A =
     forall_in_set (elemList A) (noElem A) (\<lambda>k B.
       (let nodeList = nodeList_of A k;
            locals = GlobalToLocal_AoO nodeList (NODESPERELEM A) (iu A) (iuhat A)
        in for_upto (NUMQUADPTS A) (AoO_Kinematic_point A k locals) B))"

definition AoO_Integration_point ::
  "AoO_args \<Rightarrow> buffers \<Rightarrow> stress \<Rightarrow> nat \<Rightarrow> nat \<Rightarrow> node_array \<Rightarrow> node_array" where
  "AoO_Integration_point A B S k q f_local =
     (let m = iconstitutiveMap A k q;
          TotalStress = assemble_TotalStress S k q m
      in Integrate_AoO f_local (idetJ A k q) (detF_ptr B k q) (Finv_ptr B k q) TotalStress
           (idNdX A) k q (NODESPERELEM A))"

definition ArrayOfObjects_IntegrationKernel ::
  "AoO_args \<Rightarrow> buffers \<Rightarrow> stress \<Rightarrow> node_array \<Rightarrow> node_array" where
  "ArrayOfObjects_IntegrationKernel A B S =
     forall_in_set (elemList A) (noElem A) (\<lambda>k iacc.
       (let nodeList = nodeList_of A k;
            f_local = for_upto (NUMQUADPTS A) (AoO_Integration_point A B S k) (\<lambda>a i. 0)
        in AddLocalToGlobal_AoO nodeList (NODESPERELEM A) f_local iacc))"

text \<open>
  The three split kernels one after the other, as a time step runs them: the kinematic
  kernel fills the buffers, the constitutive kernel updates the stress from them, the
  integration kernel accumulates the forces from the updated stress.
\<close>

definition split_kernels :: "AoO_args \<Rightarrow> buffers \<Rightarrow> stress \<times> node_array \<Rightarrow> stress \<times> node_array" where
  "split_kernels A B0 = (\<lambda>(S, iacc).
     (let B = ArrayOfObjects_KinematicKernel A B0;
          S = ConstitutiveUpdateKernel (NUMQUADPTS A) (noElem A) (elemList A)
                (Dadt_ptr B) (Rot_ptr B) (iconstitutiveMap A)
                (ishearModulus A) (ibulkModulus A) S
      in (S, ArrayOfObjects_IntegrationKernel A B S iacc)))"

section \<open>The quantities the spec names\<close>

text \<open>
  The mid-step and the end-of-step deformation gradients in the spec's words,
  \<open>F = I + dUdX + 0.5\<cdot>dUhatdX\<close> and \<open>F_end = I + dUdX + dUhatdX\<close>, and the symmetric
  tensor of six stored components, the lower triangle mirrored into the upper one.
\<close>

definition midpoint_F :: "tensor \<Rightarrow> tensor \<Rightarrow> tensor" where
  "midpoint_F dUdX dUhatdX = (\<lambda>i j. identity i j + dUdX i j + 0.5 * dUhatdX i j)"

definition end_of_step_F :: "tensor \<Rightarrow> tensor \<Rightarrow> tensor" where
  "end_of_step_F dUdX dUhatdX = (\<lambda>i j. identity i j + dUdX i j + dUhatdX i j)"

definition mirrored :: "arr \<Rightarrow> tensor" where
  "mirrored d = (\<lambda>i j. case (i, j) of
       (I0, I0) \<Rightarrow> d 0
     | (I1, I0) \<Rightarrow> d 1 | (I0, I1) \<Rightarrow> d 1
     | (I1, I1) \<Rightarrow> d 2
     | (I2, I0) \<Rightarrow> d 3 | (I0, I2) \<Rightarrow> d 3
     | (I2, I1) \<Rightarrow> d 4 | (I1, I2) \<Rightarrow> d 4
     | (I2, I2) \<Rightarrow> d 5)"

text \<open>
  What the quadrature loop of a monolithic kernel does to the stress arrays at the
  point \<open>(k, q)\<close>, given the two gradients: the update the function pointer performs
  on the output of \<^verbatim>\<open>HughesWinget\<close>.
\<close>

definition point_update ::
  "'a kernel_args_scheme \<Rightarrow> constUpdate \<Rightarrow> nat \<Rightarrow> nat \<Rightarrow> tensor \<times> tensor \<Rightarrow> stress \<Rightarrow> stress" where
  "point_update A updateState_ptr k q = (\<lambda>(dUdX, dUhatdX) S.
     (let (L, detF, Finv) = point_kinematics dUdX dUhatdX (dt A);
          (Rot, Dadt) = HughesWinget L (dt A)
      in updateState_ptr Dadt Rot (iconstitutiveMap A k q) q k S
           (ishearModulus A) (ibulkModulus A)))"

text \<open>The local buffers \<^verbatim>\<open>GlobalToLocal\<close> fills for the element \<open>k\<close>.\<close>

definition OoA_locals :: "OoA_args \<Rightarrow> nat \<Rightarrow> arr \<times> arr \<times> arr \<times> arr \<times> arr \<times> arr" where
  "OoA_locals A k = GlobalToLocal (nodeList_of A k) (NODESPERELEM A)
     (iu_x A) (iu_y A) (iu_z A) (iuhat_x A) (iuhat_y A) (iuhat_z A)"

definition AoO_locals :: "AoO_args \<Rightarrow> nat \<Rightarrow> node_array \<times> node_array" where
  "AoO_locals A k = GlobalToLocal_AoO (nodeList_of A k) (NODESPERELEM A) (iu A) (iuhat A)"

text \<open>The elements a kernel visits, in the order of the loop.\<close>

definition elements :: "'a kernel_args_scheme \<Rightarrow> nat list" where
  "elements A = map (elemList A) [0..<noElem A]"

text \<open>
  The persistent state of the point \<open>(k, q)\<close>: its six deviatoric components and the
  mean stress of the material index the constitutive map gives it.
\<close>

definition point_state :: "(nat \<Rightarrow> nat \<Rightarrow> nat) \<Rightarrow> stress \<Rightarrow> nat \<Rightarrow> nat \<Rightarrow> arr \<times> real64" where
  "point_state cmap S k q = (idevStressData S k q, imeanStress S (cmap k q))"

definition zero_stress :: stress where
  "zero_stress = \<lparr>idevStressData = (\<lambda>k q c. 0), imeanStress = (\<lambda>m. 0)\<rparr>"

text \<open>
  The \<open>detF\<close> the quadrature loop of \<^verbatim>\<open>ObjectOfArraysKernel\<close> computes at the point
  \<open>(k, q)\<close>.
\<close>

definition OoA_detF :: "OoA_args \<Rightarrow> nat \<Rightarrow> nat \<Rightarrow> real64" where
  "OoA_detF A k q =
     (let (dUdX, dUhatdX) = OoA_gradients A k q (OoA_locals A k);
          (L, detF, Finv) = point_kinematics dUdX dUhatdX (dt A)
      in detF)"

text \<open>
  A mesh of one element with one node and one quadrature point, for the examples: the
  node's incremental displacement is \<open>v\<close> along x, the shape-function derivative is 1
  along x, the time step, the moduli and \<open>detJ\<close> are 1, nothing else is displaced.
\<close>

definition one_point_mesh :: "real64 \<Rightarrow> OoA_args" where
  "one_point_mesh v =
     \<lparr>NODESPERELEM = 1, NUMQUADPTS = 1, noElem = 1, elemList = (\<lambda>i. 0), dt = 1,
      elemsToNodes = (\<lambda>i. 0), iconstitutiveMap = (\<lambda>k q. 0),
      ishearModulus = 1, ibulkModulus = 1, idetJ = (\<lambda>k q. 1),
      iu_x = (\<lambda>n. 0), iu_y = (\<lambda>n. 0), iu_z = (\<lambda>n. 0),
      iuhat_x = (\<lambda>n. v), iuhat_y = (\<lambda>n. 0), iuhat_z = (\<lambda>n. 0),
      idNdX_x = (\<lambda>k q a. 1), idNdX_y = (\<lambda>k q a. 0), idNdX_z = (\<lambda>k q a. 0)\<rparr>"

definition zero_acc :: "arr \<times> arr \<times> arr" where
  "zero_acc = ((\<lambda>n. 0), (\<lambda>n. 0), (\<lambda>n. 0))"

text \<open>
  What the element with the node list \<open>nodeList\<close> and the local forces \<open>f_local\<close>
  contributes to the global slot of \<open>node\<close>: the local forces of those of its nodes
  that are \<open>node\<close>.
\<close>

definition contribution ::
  "(nat \<Rightarrow> nat) \<Rightarrow> nat \<Rightarrow> (nat \<Rightarrow> 'a::comm_monoid_add) \<Rightarrow> nat \<Rightarrow> 'a" where
  "contribution nodeList n f_local node =
     (\<Sum>a\<leftarrow>[0..<n]. if nodeList a = node then f_local a else 0)"

text \<open>
  The three accelerations of a node, read from the three global arrays.
\<close>

definition at_node :: "(nat \<Rightarrow> 'a) \<times> (nat \<Rightarrow> 'a) \<times> (nat \<Rightarrow> 'a) \<Rightarrow> nat \<Rightarrow> 'a \<times> 'a \<times> 'a" where
  "at_node acc node = (case acc of (acc_x, acc_y, acc_z) \<Rightarrow> (acc_x node, acc_y node, acc_z node))"



text \<open>
  For the comparison of the split kernels with the monolithic one: what the quadrature
  loop of \<^verbatim>\<open>ArrayOfObjectsKernel\<close>, run with the linear-elastic update, does at the point
  \<open>(k, q)\<close> to the stress arrays, and what it then adds to the local forces from the
  stress arrays \<open>S\<close>.
\<close>

definition AoO_update :: "AoO_args \<Rightarrow> nat \<Rightarrow> nat \<Rightarrow> stress \<Rightarrow> stress" where
  "AoO_update A k q =
     point_update A UpdateStatePoint k q (AoO_gradients A k q (AoO_locals A k))"

definition AoO_force :: "AoO_args \<Rightarrow> nat \<Rightarrow> nat \<Rightarrow> stress \<Rightarrow> node_array \<Rightarrow> node_array" where
  "AoO_force A k q S f =
     (let (dUdX, dUhatdX) = AoO_gradients A k q (AoO_locals A k);
          F_end = end_of_step_F dUdX dUhatdX
      in Integrate_AoO f (idetJ A k q) (det F_end) (Finverse F_end)
           (assemble_TotalStress S k q (iconstitutiveMap A k q))
           (idNdX A) k q (NODESPERELEM A))"

text \<open>
  The four values the kinematic block computes at the point \<open>(k, q)\<close>, and the four
  values the buffers hold for it.
\<close>

definition AoO_kinematics :: "AoO_args \<Rightarrow> nat \<Rightarrow> nat \<Rightarrow> tensor \<times> tensor \<times> real64 \<times> tensor" where
  "AoO_kinematics A k q =
     (let (dUdX, dUhatdX) = AoO_gradients A k q (AoO_locals A k);
          (L, detF, Finv) = point_kinematics dUdX dUhatdX (dt A);
          (Rot, Dadt) = HughesWinget L (dt A)
      in (Dadt, Rot, detF, Finv))"

definition read_buffers :: "buffers \<Rightarrow> nat \<Rightarrow> nat \<Rightarrow> tensor \<times> tensor \<times> real64 \<times> tensor" where
  "read_buffers B k q = (Dadt_ptr B k q, Rot_ptr B k q, detF_ptr B k q, Finv_ptr B k q)"

text \<open>The same for a whole element: its updates, and its local forces from \<open>S\<close>.\<close>

definition AoO_element_update :: "AoO_args \<Rightarrow> nat \<Rightarrow> stress \<Rightarrow> stress" where
  "AoO_element_update A k = for_upto (NUMQUADPTS A) (AoO_update A k)"

definition AoO_element_force :: "AoO_args \<Rightarrow> nat \<Rightarrow> stress \<Rightarrow> node_array" where
  "AoO_element_force A k S = for_upto (NUMQUADPTS A) (\<lambda>q. AoO_force A k q S) (\<lambda>a i. 0)"

text \<open>
  A mesh for the examples, over a constitutive map \<open>cmap\<close>: the kernel visits the \<open>n\<close>
  elements \<open>el 0, el 1, ...\<close>, each with two quadrature points and one node, the node 0
  for all of them; the node's incremental displacement is 1 along x, the
  shape-function derivative is 1 along x, the time step, the moduli and \<open>detJ\<close> are 1.
\<close>

definition two_point_mesh :: "nat \<Rightarrow> (nat \<Rightarrow> nat) \<Rightarrow> (nat \<Rightarrow> nat \<Rightarrow> nat) \<Rightarrow> AoO_args" where
  "two_point_mesh n el cmap =
     \<lparr>NODESPERELEM = 1, NUMQUADPTS = 2, noElem = n, elemList = el, dt = 1,
      elemsToNodes = (\<lambda>i. 0), iconstitutiveMap = cmap,
      ishearModulus = 1, ibulkModulus = 1, idetJ = (\<lambda>k q. 1),
      iu = (\<lambda>n i. 0), iuhat = (\<lambda>n i. if i = I0 then 1 else 0),
      idNdX = (\<lambda>k q a i. if i = I0 then 1 else 0)\<rparr>"

definition zero_buffers :: buffers where
  "zero_buffers = \<lparr>Dadt_ptr = (\<lambda>k q. zeros), Rot_ptr = (\<lambda>k q. zeros),
     detF_ptr = (\<lambda>k q. 0), Finv_ptr = (\<lambda>k q. zeros)\<rparr>"

text \<open>
  The values of an IEEE double, for the division by the time step: a finite value (an
  exact real here, so rounding and overflow stay outside the model), an infinity (of
  either sign) or not-a-number. Multiplication and division follow IEEE 754 on the
  special values: a nonzero finite value over zero is infinite, zero over zero and zero
  times infinity are not numbers, and not-a-number propagates.
\<close>

datatype ieee = Finite real | Infinite | NaN

instantiation ieee :: "{one, times, inverse}"
begin

definition one_ieee :: ieee where
  "one_ieee = Finite 1"

definition times_ieee :: "ieee \<Rightarrow> ieee \<Rightarrow> ieee" where
  "times_ieee x y =
     (case (x, y) of
        (NaN, _) \<Rightarrow> NaN
      | (_, NaN) \<Rightarrow> NaN
      | (Finite a, Finite b) \<Rightarrow> Finite (a * b)
      | (Finite a, Infinite) \<Rightarrow> (if a = 0 then NaN else Infinite)
      | (Infinite, Finite b) \<Rightarrow> (if b = 0 then NaN else Infinite)
      | (Infinite, Infinite) \<Rightarrow> Infinite)"

definition divide_ieee :: "ieee \<Rightarrow> ieee \<Rightarrow> ieee" where
  "divide_ieee x y =
     (case (x, y) of
        (NaN, _) \<Rightarrow> NaN
      | (_, NaN) \<Rightarrow> NaN
      | (Finite a, Finite b) \<Rightarrow>
          (if b = 0 then (if a = 0 then NaN else Infinite) else Finite (a / b))
      | (Finite a, Infinite) \<Rightarrow> Finite 0
      | (Infinite, Finite b) \<Rightarrow> Infinite
      | (Infinite, Infinite) \<Rightarrow> NaN)"

definition inverse_ieee :: "ieee \<Rightarrow> ieee" where
  "inverse_ieee x =
     (case x of
        NaN \<Rightarrow> NaN
      | Infinite \<Rightarrow> Finite 0
      | Finite b \<Rightarrow> (if b = 0 then Infinite else Finite (1 / b)))"

instance ..

end

definition is_finite :: "ieee \<Rightarrow> bool" where
  "is_finite x = (case x of Finite a \<Rightarrow> True | Infinite \<Rightarrow> False | NaN \<Rightarrow> False)"

text \<open>
  The additions of the scatter on machine numbers. A double has 53 significant bits.
  The doubles of integer value are modelled by that value, and the sum of two of them
  is the exact sum rounded to the nearest double, a tie going to the one with the even
  significand (the default rounding of IEEE 754). \<open>ulp m\<close> is the spacing of the
  doubles at the magnitude \<open>m\<close>: 1 below \<open>2^53\<close>, and twice as much with every further
  bit. The overflow of the exponent is outside the model.
\<close>

fun ulp :: "nat \<Rightarrow> nat" where
  "ulp m = (if m < 2 ^ 53 then 1 else 2 * ulp (m div 2))"

declare ulp.simps [simp del]

definition round53 :: "int \<Rightarrow> int" where
  "round53 x =
     (let m = nat \<bar>x\<bar>; u = ulp m; q = m div u; r = m mod u;
          y = (if 2 * r < u \<or> (2 * r = u \<and> even q) then q * u else (q + 1) * u)
      in sgn x * int y)"

datatype dbl = Dbl int

definition dbl_val :: "dbl \<Rightarrow> int" where
  "dbl_val x = (case x of Dbl a \<Rightarrow> a)"

instantiation dbl :: plus
begin

definition plus_dbl :: "dbl \<Rightarrow> dbl \<Rightarrow> dbl" where
  "plus_dbl x y = Dbl (round53 (dbl_val x + dbl_val y))"

instance ..

end

text \<open>
  For the scatter of doubles into the slot of \<open>node\<close>: the sum of the magnitudes of the
  initial value and of all the local forces the elements \<open>ks\<close> add to it, which bounds
  every partial sum in every order, and the arithmetic sum of these values.
\<close>

definition magnitude ::
  "(nat \<Rightarrow> nat \<Rightarrow> nat) \<Rightarrow> nat \<Rightarrow> (nat \<Rightarrow> nat \<Rightarrow> dbl) \<Rightarrow> nat list \<Rightarrow> (nat \<Rightarrow> dbl) \<Rightarrow> nat \<Rightarrow> int" where
  "magnitude nodes n f ks acc node =
     \<bar>dbl_val (acc node)\<bar> + (\<Sum>k\<leftarrow>ks. contribution (nodes k) n (\<lambda>a. \<bar>dbl_val (f k a)\<bar>) node)"

definition exact_total ::
  "(nat \<Rightarrow> nat \<Rightarrow> nat) \<Rightarrow> nat \<Rightarrow> (nat \<Rightarrow> nat \<Rightarrow> dbl) \<Rightarrow> nat list \<Rightarrow> (nat \<Rightarrow> dbl) \<Rightarrow> nat \<Rightarrow> int" where
  "exact_total nodes n f ks acc node =
     dbl_val (acc node) + (\<Sum>k\<leftarrow>ks. contribution (nodes k) n (\<lambda>a. dbl_val (f k a)) node)"

text \<open>
  Local forces for the examples: three elements whose forces are \<open>2^53\<close>, 1 and \<open>-2^53\<close>,
  and elements whose forces are just below \<open>2^52\<close>.
\<close>

definition cancelling :: "nat \<Rightarrow> nat \<Rightarrow> dbl" where
  "cancelling k a = (if k = 0 then Dbl (2 ^ 53) else if k = 1 then Dbl 1 else Dbl (- (2 ^ 53)))"

definition near_limit :: "nat \<Rightarrow> nat \<Rightarrow> dbl" where
  "near_limit k a = Dbl (2 ^ 52 - int k)"

definition dbl_zero_acc :: "(nat \<Rightarrow> dbl) \<times> (nat \<Rightarrow> dbl) \<times> (nat \<Rightarrow> dbl)" where
  "dbl_zero_acc = ((\<lambda>n. Dbl 0), (\<lambda>n. Dbl 0), (\<lambda>n. Dbl 0))"

section \<open>Loops over the three indices\<close>

lemma for_dim_pointwise:
  "for_dim (\<lambda>i. for_dim (\<lambda>j A. set2 A i j (h i j (A i j)))) A = (\<lambda>i j. h i j (A i j))"
  apply (intro ext)
  subgoal for i j by (cases i; cases j; simp add: for_dim_def set2_def)
  done

lemma for_dim_const:
  "for_dim (\<lambda>i. for_dim (\<lambda>j A. set2 A i j (g i j))) A = (\<lambda>i j. g i j)"
  using for_dim_pointwise [of "\<lambda>i j x. g i j" A] by simp

lemma for_dim_diagonal:
  "for_dim (\<lambda>i A. set2 A i i (h i (A i i))) A = (\<lambda>i j. if i = j then h i (A i i) else A i j)"
  apply (intro ext)
  subgoal for i j by (cases i; cases j; simp add: for_dim_def set2_def)
  done

section \<open>The matrix helpers\<close>

lemma cofactor_column:
  "cofactor A I0 i * A I0 k + cofactor A I1 i * A I1 k + cofactor A I2 i * A I2 k
     = (if i = k then det A else 0)"
  by (cases i; cases k; simp add: cofactor_def nxt_def det_def algebra_simps)

lemma cofactor_row:
  "A i I0 * cofactor A k I0 + A i I1 * cofactor A k I1 + A i I2 * cofactor A k I2
     = (if i = k then det A else 0)"
  by (cases i; cases k; simp add: cofactor_def nxt_def det_def algebra_simps)

lemma Finverse_left:
  assumes "det A \<noteq> 0"
  shows "AijBjk (Finverse A) A = identity"
proof (intro ext)
  fix i k
  have "AijBjk (Finverse A) A i k =
     (cofactor A I0 i * A I0 k + cofactor A I1 i * A I1 k + cofactor A I2 i * A I2 k) / det A"
    by (simp add: AijBjk_def Finverse_def add_divide_distrib)
  also have "\<dots> = identity i k"
    using assms by (simp only: cofactor_column) (simp add: identity_def)
  finally show "AijBjk (Finverse A) A i k = identity i k" .
qed

lemma Finverse_right:
  assumes "det A \<noteq> 0"
  shows "AijBjk A (Finverse A) = identity"
proof (intro ext)
  fix i k
  have "AijBjk A (Finverse A) i k =
     (A i I0 * cofactor A k I0 + A i I1 * cofactor A k I1 + A i I2 * cofactor A k I2) / det A"
    by (simp add: AijBjk_def Finverse_def add_divide_distrib)
  also have "\<dots> = identity i k"
    using assms by (simp only: cofactor_row) (simp add: identity_def)
  finally show "AijBjk A (Finverse A) i k = identity i k" .
qed

lemma AijBjk_assoc: "AijBjk (AijBjk A B) C = AijBjk A (AijBjk B C)"
  by (intro ext) (simp add: AijBjk_def algebra_simps)

lemma AijBjk_identity: "AijBjk A identity = A"
  apply (intro ext)
  subgoal for i k by (cases k; simp add: AijBjk_def identity_def)
  done

lemma identity_AijBjk: "AijBjk identity A = A"
  apply (intro ext)
  subgoal for i k by (cases i; simp add: AijBjk_def identity_def)
  done

lemma det_identity: "det identity = 1"
  by (simp add: det_def identity_def)

lemma Finverse_identity: "Finverse identity = identity"
  using Finverse_left [of identity] by (simp add: det_identity AijBjk_identity)

section \<open>The kinematic block\<close>

lemma point_kinematics_eq:
  "point_kinematics dUdX dUhatdX h =
     (AijBjk (\<lambda>i j. dUhatdX i j * (1 / h)) (Finverse (midpoint_F dUdX dUhatdX)),
      det (end_of_step_F dUdX dUhatdX), Finverse (end_of_step_F dUdX dUhatdX))"
proof -
  have mid: "(\<lambda>i j. if i = j then dUhatdX i i * 0.5 + dUdX i i + 1.0
                     else dUhatdX i j * 0.5 + dUdX i j) = midpoint_F dUdX dUhatdX"
    by (intro ext) (simp add: midpoint_F_def identity_def)
  have fin: "(\<lambda>i j. if i = j then dUhatdX i i + dUdX i i + 1.0
                     else dUhatdX i j + dUdX i j) = end_of_step_F dUdX dUhatdX"
    by (intro ext) (simp add: end_of_step_F_def identity_def)
  show ?thesis
    unfolding point_kinematics_def calc_dvdX_def Let_def
    unfolding for_dim_const for_dim_pointwise [of "\<lambda>i j x. x * 0.5"]
      for_dim_pointwise [of "\<lambda>i j x. x + dUdX i j"]
    unfolding for_dim_diagonal [of "\<lambda>i x. x + 1.0"] mid fin
    by simp
qed

text \<open>
  C2. For a nonzero time step, the velocity gradient the kinematic block of the
  monolithic kernels computes from the two displacement gradients is
  \<open>L = (dUhatdX / dt) \<cdot> F\<^sup>-\<^sup>1\<close> for the mid-step gradient
  \<open>F = I + dUdX + 0.5\<cdot>dUhatdX\<close>: it is the product of \<open>dUhatdX / dt\<close> with
  \<^verbatim>\<open>Finverse\<close> of \<open>F\<close>, and where \<open>F\<close> is invertible, \<open>L \<cdot> F\<close> gives \<open>dUhatdX / dt\<close> back.
\<close>

theorem velocity_gradient_midpoint:
  assumes "h \<noteq> 0"
  shows "fst (point_kinematics dUdX dUhatdX h) =
           AijBjk (\<lambda>i j. dUhatdX i j / h) (Finverse (midpoint_F dUdX dUhatdX))
       \<and> (det (midpoint_F dUdX dUhatdX) \<noteq> 0 \<longrightarrow>
           AijBjk (fst (point_kinematics dUdX dUhatdX h)) (midpoint_F dUdX dUhatdX) =
             (\<lambda>i j. dUhatdX i j / h))"
proof -
  have L: "fst (point_kinematics dUdX dUhatdX h) =
           AijBjk (\<lambda>i j. dUhatdX i j / h) (Finverse (midpoint_F dUdX dUhatdX))"
    by (simp add: point_kinematics_eq)
  have "AijBjk (fst (point_kinematics dUdX dUhatdX h)) (midpoint_F dUdX dUhatdX) =
             (\<lambda>i j. dUhatdX i j / h)" if "det (midpoint_F dUdX dUhatdX) \<noteq> 0"
    by (simp only: L AijBjk_assoc Finverse_left [OF that] AijBjk_identity)
  with L show ?thesis by blast
qed

theorem velocity_gradient_midpoint_witness:
  "(2::real) \<noteq> 0 \<and> det (midpoint_F zeros identity) \<noteq> 0
   \<and> fst (point_kinematics zeros identity 2) =
           AijBjk (\<lambda>i j. identity i j / 2) (Finverse (midpoint_F zeros identity))
   \<and> AijBjk (fst (point_kinematics zeros identity 2)) (midpoint_F zeros identity) =
             (\<lambda>i j. identity i j / 2)"
proof -
  have d: "det (midpoint_F zeros identity) \<noteq> 0"
    by (simp add: det_def midpoint_F_def identity_def zeros_def)
  have h: "(2::real) \<noteq> 0" by simp
  from velocity_gradient_midpoint [OF h, of zeros identity] d h show ?thesis by blast
qed

section \<open>The quadrature point of a monolithic kernel\<close>

lemma OoA_point_eq:
  "OoA_point A upd k locals q (S, fx, fy, fz) =
     (let g = OoA_gradients A k q locals;
          F_end = end_of_step_F (fst g) (snd g);
          S' = point_update A upd k q g S;
          (fx', fy', fz') = Integrate fx fy fz (idetJ A k q) (det F_end) (Finverse F_end)
             (assemble_TotalStress S' k q (iconstitutiveMap A k q))
             (idNdX_x A) (idNdX_y A) (idNdX_z A) k q (NODESPERELEM A)
      in (S', fx', fy', fz'))"
  by (simp add: OoA_point_def point_update_def point_kinematics_eq Let_def split_def)

lemma AoO_point_eq:
  "AoO_point A upd k locals q (S, f) =
     (let g = AoO_gradients A k q locals;
          F_end = end_of_step_F (fst g) (snd g);
          S' = point_update A upd k q g S
      in (S', Integrate_AoO f (idetJ A k q) (det F_end) (Finverse F_end)
             (assemble_TotalStress S' k q (iconstitutiveMap A k q))
             (idNdX A) k q (NODESPERELEM A)))"
  by (simp add: AoO_point_def point_update_def point_kinematics_eq Let_def split_def)

text \<open>
  C3. At every element and quadrature point, the \<open>detF\<close> and \<open>Finv\<close> the kernel hands
  to \<^verbatim>\<open>Integrate\<close> are the determinant and the inverse of the end-of-step gradient
  \<open>F_end = I + dUdX + dUhatdX\<close>, not of the mid-step gradient of the velocity
  gradient: the local forces after the point are \<^verbatim>\<open>Integrate\<close> of the forces before
  it with \<open>det F_end\<close>, \<open>Finverse F_end\<close> and the total stress of the updated state, and
  the kinematic block returns exactly these two values.
\<close>

theorem integration_uses_end_of_step_gradient:
  "snd (OoA_point A upd k locals q (S, fx, fy, fz)) =
     (let (dUdX, dUhatdX) = OoA_gradients A k q locals;
          F_end = end_of_step_F dUdX dUhatdX;
          S' = point_update A upd k q (dUdX, dUhatdX) S
      in Integrate fx fy fz (idetJ A k q) (det F_end) (Finverse F_end)
           (assemble_TotalStress S' k q (iconstitutiveMap A k q))
           (idNdX_x A) (idNdX_y A) (idNdX_z A) k q (NODESPERELEM A))
   \<and> snd (point_kinematics dUdX dUhatdX h) =
       (det (end_of_step_F dUdX dUhatdX), Finverse (end_of_step_F dUdX dUhatdX))"
  by (simp add: OoA_point_eq point_kinematics_eq Let_def split_def)

section \<open>The total stress\<close>

lemma read_symmetric_eq: "read_symmetric d = mirrored d"
  apply (intro ext)
  subgoal for i j
    by (cases i; cases j; simp add: read_symmetric_def mirrored_def set2_def zeros_def)
  done

lemma assemble_TotalStress_eq:
  "assemble_TotalStress S k q m =
     (\<lambda>i j. mirrored (idevStressData S k q) i j + imeanStress S m * identity i j)"
  unfolding assemble_TotalStress_def Let_def for_dim_diagonal [of "\<lambda>i x. x + imeanStress S m"]
  by (intro ext) (simp add: read_symmetric_eq identity_def)

lemma mirrored_sym: "mirrored d i j = mirrored d j i"
  by (cases i; cases j; simp add: mirrored_def)

text \<open>
  C5. The total stress assembled for the force integration is the six stored
  components of the deviatoric stress, mirrored into the upper triangle, plus the mean
  stress on each diagonal entry; it is symmetric, and taking the mean stress off the
  diagonal again gives the mirrored deviatoric components back.
\<close>

theorem total_stress_recombination:
  "assemble_TotalStress S k q m =
     (\<lambda>i j. mirrored (idevStressData S k q) i j + imeanStress S m * identity i j)
   \<and> (\<forall>i j. assemble_TotalStress S k q m i j = assemble_TotalStress S k q m j i)
   \<and> (\<lambda>i j. assemble_TotalStress S k q m i j - imeanStress S m * identity i j) =
       mirrored (idevStressData S k q)"
  by (auto simp add: assemble_TotalStress_eq identity_def mirrored_sym)

section \<open>The linear-elastic update\<close>

lemma for_dim_deviator:
  "for_dim (\<lambda>i temp. let temp = for_dim (\<lambda>j temp. set2 temp i j (g i j)) temp
                        in set2 temp i i (temp i i - c)) A
     = (\<lambda>i j. if i = j then g i j - c else g i j)"
  apply (intro ext)
  subgoal for i j by (cases i; cases j; simp add: for_dim_def set2_def Let_def)
  done

text \<open>
  The body of \<^verbatim>\<open>ConstitutiveUpdateKernel\<close> is the update the spec describes, applied to
  the buffers' entries of the point.
\<close>

lemma ConstitutiveUpdate_point_eq:
  "ConstitutiveUpdate_point D R cmap G K k q S =
     UpdateStatePoint (D k q) (R k q) (cmap k q) q k S G K"
proof -
  let ?d = "idevStressData S k q"
  let ?inc = "deviatoric_increment (D k q) G"
  have inc: "store_symmetric (\<lambda>i j. read_symmetric ?d i j + ?inc i j) ?d =
     ?d(0 := ?d 0 + ?inc I0 I0, 1 := ?d 1 + ?inc I1 I0, 2 := ?d 2 + ?inc I1 I1,
        3 := ?d 3 + ?inc I2 I0, 4 := ?d 4 + ?inc I2 I1, 5 := ?d 5 + ?inc I2 I2)"
    by (simp add: store_symmetric_def read_symmetric_eq mirrored_def)
  have dev: "\<And>i j. (if i = j then D k q i j - (D k q I0 I0 + D k q I1 I1 + D k q I2 I2) / 3
                         else D k q i j) * (2 * G) = ?inc i j"
    by (simp add: deviatoric_increment_def trace_def identity_def algebra_simps)
  show ?thesis
    unfolding ConstitutiveUpdate_point_def UpdateStatePoint_def
    unfolding for_dim_deviator for_dim_pointwise [of "\<lambda>i j x. x * (2.0 * G)"] for_dim_const
    unfolding Let_def inc rotate_def
    apply (simp add: set3_def store_symmetric_def trace_def)
    apply (simp only: dev [of I0 I0, simplified] dev [of I1 I0, simplified]
       dev [of I1 I1, simplified] dev [of I2 I0, simplified] dev [of I2 I1, simplified]
       dev [of I2 I2, simplified])
    done
qed

lemma rotate_sum:
  "rotate Rot T = (\<lambda>i l. \<Sum>a\<leftarrow>[I0, I1, I2]. \<Sum>b\<leftarrow>[I0, I1, I2]. Rot i a * T a b * Rot l b)"
  by (intro ext) (simp add: rotate_def AijBkj_def AijBjk_def algebra_simps)

lemma UpdateStatePoint_dev_frame:
  "k' \<noteq> k \<or> q' \<noteq> q \<Longrightarrow>
     idevStressData (UpdateStatePoint Dadt Rot m q k S G K) k' q' = idevStressData S k' q'"
  by (auto simp add: UpdateStatePoint_def Let_def)

lemma UpdateStatePoint_mean:
  "imeanStress (UpdateStatePoint Dadt Rot m q k S G K) m' =
     (if m' = m then imeanStress S m + trace Dadt * K else imeanStress S m')"
  by (simp add: UpdateStatePoint_def Let_def)

text \<open>
  C4. For the element \<open>k\<close> and the quadrature point \<open>q\<close>, the constitutive-update
  kernel does exactly this: the mean stress of the point's material index gains
  \<open>trace(Dadt)\<cdot>bulkModulus\<close>; the stored deviatoric components gain those of
  \<open>2\<cdot>shearModulus\<cdot>(Dadt - trace(Dadt)/3\<cdot>I)\<close>; then the mirrored tensor \<open>S\<close> of the
  updated components is replaced by \<open>Rot\<cdot>S\<cdot>Rot\<^sup>t\<close>, whose lower triangle is stored. The
  rotation comes after the increment and touches the deviatoric part only.
\<close>

theorem linear_elastic_update:
  "ConstitutiveUpdate_point D R cmap G K k q S =
     (let d = idevStressData S k q;
          incremented = store_symmetric
            (\<lambda>i j. mirrored d i j + 2 * G * (D k q i j - trace (D k q) / 3 * identity i j)) d;
          rotated = store_symmetric (rotate (R k q) (mirrored incremented)) incremented
      in \<lparr>idevStressData = (idevStressData S)(k := (idevStressData S k)(q := rotated)),
          imeanStress = (imeanStress S)(cmap k q := imeanStress S (cmap k q) + trace (D k q) * K)\<rparr>)
   \<and> rotate Rot T =
       (\<lambda>i l. \<Sum>a\<leftarrow>[I0, I1, I2]. \<Sum>b\<leftarrow>[I0, I1, I2]. Rot i a * T a b * Rot l b)"
  by (simp add: ConstitutiveUpdate_point_eq UpdateStatePoint_def read_symmetric_eq
      deviatoric_increment_def rotate_sum Let_def)

text \<open>
  C6, as the claim states it, fails: with a constitutive map that sends the points
  \<open>(0, 0)\<close> and \<open>(0, 1)\<close> to the same material index, the update for \<open>(0, 1)\<close> changes
  the state of \<open>(0, 0)\<close>, whose mean stress is the shared \<^verbatim>\<open>imeanStress[m]\<close>.
\<close>

theorem shared_mean_stress_counterexample:
  "point_state (\<lambda>k q. 0)
     (ConstitutiveUpdate_point (\<lambda>k q. identity) (\<lambda>k q. identity) (\<lambda>k q. 0) 1 1 0 1 zero_stress) 0 0
   \<noteq> point_state (\<lambda>k q. 0) zero_stress 0 0"
  by (simp add: point_state_def ConstitutiveUpdate_point_eq UpdateStatePoint_mean
      zero_stress_def trace_def identity_def)

text \<open>
  C6, amended. A constitutive update for the point \<open>(k, q)\<close> leaves the deviatoric
  stress of every other point \<open>(k', q')\<close> as it was. The mean stress is stored per
  material index: the other point keeps its whole state when the constitutive map gives
  it another index than \<open>(k, q)\<close>, and when the map gives both the same index, the one
  mean stress they share gains \<open>trace(Dadt)\<cdot>bulkModulus\<close>.
\<close>

theorem constitutive_update_frame:
  assumes "(k', q') \<noteq> (k, q)"
  shows "idevStressData (ConstitutiveUpdate_point D R cmap G K k q S) k' q' = idevStressData S k' q'
     \<and> (cmap k' q' \<noteq> cmap k q \<longrightarrow>
          point_state cmap (ConstitutiveUpdate_point D R cmap G K k q S) k' q' =
            point_state cmap S k' q')
     \<and> (cmap k' q' = cmap k q \<longrightarrow>
          imeanStress (ConstitutiveUpdate_point D R cmap G K k q S) (cmap k' q') =
            imeanStress S (cmap k' q') + trace (D k q) * K)"
  using assms
  by (auto simp add: point_state_def ConstitutiveUpdate_point_eq UpdateStatePoint_mean
      UpdateStatePoint_dev_frame)

theorem constitutive_update_frame_witness:
  "((0::nat), (0::nat)) \<noteq> (0, 1) \<and> (\<lambda>k q. q) 0 0 \<noteq> (\<lambda>k q. q) 0 (1::nat)
   \<and> point_state (\<lambda>k q. q)
       (ConstitutiveUpdate_point (\<lambda>k q. identity) (\<lambda>k q. identity) (\<lambda>k q. q) 1 1 0 1
          zero_stress) 0 0
     = point_state (\<lambda>k q. q) zero_stress 0 0
   \<and> imeanStress
       (ConstitutiveUpdate_point (\<lambda>k q. identity) (\<lambda>k q. identity) (\<lambda>k q. 0) 1 1 0 1
          zero_stress) 0 = 3"
proof -
  have n: "((0::nat), (0::nat)) \<noteq> (0, 1)" by simp
  from constitutive_update_frame
         [OF n, of "\<lambda>k q. identity" "\<lambda>k q. identity" "\<lambda>k q. q" 1 1 zero_stress]
       constitutive_update_frame
         [OF n, of "\<lambda>k q. identity" "\<lambda>k q. identity" "\<lambda>k q. 0" 1 1 zero_stress]
  show ?thesis by (simp add: zero_stress_def trace_def identity_def)
qed

section \<open>Counted loops and the gather\<close>

lemma for_upto_0: "for_upto 0 body s = s"
  by (simp add: for_upto_def)

lemma for_upto_Suc: "for_upto (Suc n) body s = body n (for_upto n body s)"
  by (simp add: for_upto_def)

lemma for_upto_cong: "(\<And>a s. a < n \<Longrightarrow> f a s = g a s) \<Longrightarrow> for_upto n f s = for_upto n g s"
  unfolding for_upto_def by (rule fold_cong) auto

lemma gather_apply:
  "gather nodeList n g l0 a = (if a < n then g (nodeList a) else l0 a)"
  by (induction n) (auto simp add: gather_def for_upto_0 for_upto_Suc less_Suc_eq)

lemma forall_in_set_eq: "forall_in_set (elemList A) (noElem A) body s = fold body (elements A) s"
  by (simp add: forall_in_set_def elements_def)

lemma fst_for_upto_OoA_point:
  "fst (for_upto n (OoA_point A upd k locals) (S, f)) =
     for_upto n (\<lambda>q. point_update A upd k q (OoA_gradients A k q locals)) S"
proof (induction n)
  case 0
  show ?case by (simp add: for_upto_0)
next
  case (Suc n)
  obtain S' fx fy fz where r: "for_upto n (OoA_point A upd k locals) (S, f) = (S', fx, fy, fz)"
    by (cases "for_upto n (OoA_point A upd k locals) (S, f)" rule: prod_cases4)
  with Suc show ?case
    by (simp add: for_upto_Suc OoA_point_eq Let_def split_def)
qed

lemma OoA_element_eq:
  "OoA_element A upd k (S, iacc) =
     (let (S', f_x, f_y, f_z) = for_upto (NUMQUADPTS A) (OoA_point A upd k (OoA_locals A k))
                (S, (\<lambda>a. 0), (\<lambda>a. 0), (\<lambda>a. 0))
      in (S', AddLocalToGlobal (nodeList_of A k) (NODESPERELEM A) f_x f_y f_z iacc))"
  by (simp add: OoA_element_def OoA_locals_def Let_def)

lemma fst_OoA_element:
  "fst (OoA_element A upd k (S, iacc)) =
     for_upto (NUMQUADPTS A) (\<lambda>q. point_update A upd k q (OoA_gradients A k q (OoA_locals A k))) S"
  unfolding OoA_element_def Let_def OoA_locals_def [symmetric]
  by (simp add: split_def fst_for_upto_OoA_point)

lemma fst_fold_OoA_element:
  "fst (fold (OoA_element A upd) ks (S, iacc)) =
     fold (\<lambda>k. for_upto (NUMQUADPTS A)
       (\<lambda>q. point_update A upd k q (OoA_gradients A k q (OoA_locals A k)))) ks S"
proof (induction ks arbitrary: S iacc)
  case Nil
  show ?case by simp
next
  case (Cons k ks)
  obtain S' iacc' where r: "OoA_element A upd k (S, iacc) = (S', iacc')"
    by (cases "OoA_element A upd k (S, iacc)")
  from fst_OoA_element [of A upd k S iacc] r
  have "S' = for_upto (NUMQUADPTS A)
     (\<lambda>q. point_update A upd k q (OoA_gradients A k q (OoA_locals A k))) S" by simp
  with Cons [of S' iacc'] r show ?case by simp
qed

section \<open>The scatter into the global arrays\<close>

lemma scatter_add_apply:
  fixes acc :: "nat \<Rightarrow> 'a::comm_monoid_add"
  shows "scatter_add nodeList n f acc node = acc node + contribution nodeList n f node"
  by (induction n arbitrary: node)
     (simp_all add: scatter_add_def contribution_def for_upto_0 for_upto_Suc add.assoc)

lemma AddLocalToGlobal_apply:
  fixes ax ay az :: "nat \<Rightarrow> 'a::comm_monoid_add"
  shows "AddLocalToGlobal nodeList n f_x f_y f_z (ax, ay, az) =
     ((\<lambda>node. ax node + contribution nodeList n f_x node),
      (\<lambda>node. ay node + contribution nodeList n f_y node),
      (\<lambda>node. az node + contribution nodeList n f_z node))"
  by (simp add: AddLocalToGlobal_def fun_eq_iff scatter_add_apply)

lemma fold_scatter_add:
  fixes acc :: "nat \<Rightarrow> 'a::comm_monoid_add"
  shows "fold (\<lambda>k. scatter_add (nodes k) n (f k)) ks acc node =
     acc node + (\<Sum>k\<leftarrow>ks. contribution (nodes k) n (f k) node)"
  by (induction ks arbitrary: acc) (simp_all add: scatter_add_apply add.assoc)

lemma sum_list_permuted:
  fixes g :: "'b \<Rightarrow> 'a::comm_monoid_add"
  assumes "mset ks' = mset ks"
  shows "sum_list (map g ks') = sum_list (map g ks)"
proof -
  have "sum_list (map g ks') = sum_mset (image_mset g (mset ks'))"
    by (simp add: sum_mset_sum_list [symmetric])
  also have "\<dots> = sum_list (map g ks)"
    by (simp add: assms sum_mset_sum_list [symmetric])
  finally show ?thesis .
qed

lemma fold_AddLocalToGlobal:
  "fold (\<lambda>k. AddLocalToGlobal (nodes k) n (fx k) (fy k) (fz k)) ks (ax, ay, az) =
     (fold (\<lambda>k. scatter_add (nodes k) n (fx k)) ks ax,
      fold (\<lambda>k. scatter_add (nodes k) n (fy k)) ks ay,
      fold (\<lambda>k. scatter_add (nodes k) n (fz k)) ks az)"
  by (induction ks arbitrary: ax ay az) (simp_all add: AddLocalToGlobal_def)

section \<open>An element without displacement\<close>

lemma CalculateGradient_zero:
  "CalculateGradient zeros (\<lambda>a. 0) (\<lambda>a. 0) (\<lambda>a. 0) dx dy dz k q n = zeros"
proof (induction n)
  case 0
  show ?case by (simp add: CalculateGradient_def for_upto_0)
next
  case (Suc n)
  have z: "xyz (\<lambda>a. 0::real) (\<lambda>a. 0) (\<lambda>a. 0) = (\<lambda>i a. 0)"
    apply (intro ext) subgoal for i a by (cases i; simp add: xyz_def) done
  from Suc show ?case
    by (simp add: CalculateGradient_def for_upto_Suc z zeros_def)
qed






lemma rotate_identity: "rotate identity T = T"
  apply (intro ext)
  subgoal for i k by (cases i; cases k; simp add: rotate_def AijBkj_def AijBjk_def identity_def)
  done











section \<open>The one-point mesh\<close>

lemma one_point_elements: "elements (one_point_mesh v) = [0]"
  by (simp add: elements_def one_point_mesh_def)

lemma one_point_locals:
  "OoA_locals (one_point_mesh v) 0 = ((\<lambda>a. 0), (\<lambda>a. 0), (\<lambda>a. 0), (\<lambda>a. if a = 0 then v else 0), (\<lambda>a. 0), (\<lambda>a. 0))"
  by (auto simp add: OoA_locals_def GlobalToLocal_def gather_apply one_point_mesh_def)

lemma one_point_gradients:
  "OoA_gradients (one_point_mesh v) 0 0 (OoA_locals (one_point_mesh v) 0) =
     (zeros, (\<lambda>i j. if i = I0 \<and> j = I0 then v else 0))"
proof -
  have "CalculateGradient zeros (\<lambda>a. if a = 0 then v else 0) (\<lambda>a. 0) (\<lambda>a. 0)
          (\<lambda>k q a. 1) (\<lambda>k q a. 0) (\<lambda>k q a. 0) 0 0 (Suc 0) = (\<lambda>i j. if i = I0 \<and> j = I0 then v else 0)"
    apply (intro ext)
    subgoal for i j 
      by (cases i; cases j; simp add: CalculateGradient_def for_upto_Suc for_upto_0 xyz_def zeros_def)
    done
  then show ?thesis
    by (simp add: one_point_locals OoA_gradients_def CalculateGradient_zero)
       (simp add: one_point_mesh_def)
qed


lemma one_point_detF: "OoA_detF (one_point_mesh v) 0 0 = 1 + v"
  by (simp add: OoA_detF_def one_point_gradients point_kinematics_eq)
     (simp add: one_point_mesh_def det_def end_of_step_F_def identity_def zeros_def)

lemma one_point_L:
  "v \<noteq> -2 \<Longrightarrow> c = v / (1 + v / 2) \<Longrightarrow>
   AijBjk (\<lambda>i j. if i = I0 \<and> j = I0 then v else 0)
     (Finverse (midpoint_F zeros (\<lambda>i j. if i = I0 \<and> j = I0 then v else 0)))
   = (\<lambda>i j. if i = I0 \<and> j = I0 then c else 0)"
  apply (intro ext)
  subgoal for i j
    by (cases i; cases j; 
        simp add: AijBjk_def Finverse_def cofactor_def nxt_def det_def midpoint_F_def identity_def zeros_def)
  done

lemma stretch_HughesWinget:
  "HughesWinget (\<lambda>i j. if i = I0 \<and> j = I0 then c else 0) 1 =
     (identity, (\<lambda>i j. if i = I0 \<and> j = I0 then c else 0))"
proof -
  have "(\<lambda>i j. identity i j - 0.5 * 1 * (0.5 * ((if i = I0 \<and> j = I0 then c else 0) - (if j = I0 \<and> i = I0 then c else 0)))) = identity"
       "(\<lambda>i j. identity i j + 0.5 * 1 * (0.5 * ((if i = I0 \<and> j = I0 then c else 0) - (if j = I0 \<and> i = I0 then c else 0)))) = identity"
       "(\<lambda>i j. 0.5 * ((if i = I0 \<and> j = I0 then c else 0) + (if j = I0 \<and> i = I0 then c else 0)) * 1) = (\<lambda>i j. if i = I0 \<and> j = I0 then c else 0)"
    by (auto simp add: fun_eq_iff)
  then show ?thesis
    unfolding HughesWinget_def Let_def by (simp add: Finverse_identity AijBjk_identity)
qed

lemma one_point_update:
  "v \<noteq> -2 \<Longrightarrow> c = v / (1 + v / 2) \<Longrightarrow>
   point_update (one_point_mesh v) UpdateStatePoint 0 0
     (zeros, (\<lambda>i j. if i = I0 \<and> j = I0 then v else 0)) S =
   UpdateStatePoint (\<lambda>i j. if i = I0 \<and> j = I0 then c else 0) identity 0 0 0 S 1 1"
  by (simp add: point_update_def point_kinematics_eq)
     (simp add: one_point_mesh_def one_point_L [of v c] stretch_HughesWinget)


section \<open>The kernels do not look at the sign of detF\<close>

text \<open>
  C1, as the claim states it, fails: the kernels have no check of \<open>detF\<close> and no error
  result. On the one-point mesh with the incremental displacement \<open>-4\<close> the element is
  inverted, \<open>detF = -3\<close>; the kernel returns all the same, the mean stress of the point
  has gone from 0 to 4 and the acceleration of the node from 0 to \<open>28/3\<close>.
\<close>

theorem inverted_element_counterexample:
  "OoA_detF (one_point_mesh (-4)) 0 0 = -3
   \<and> imeanStress (fst (ObjectOfArraysKernel (one_point_mesh (-4)) UpdateStatePoint
        (zero_stress, zero_acc))) 0 = 4
   \<and> fst (snd (ObjectOfArraysKernel (one_point_mesh (-4)) UpdateStatePoint
        (zero_stress, zero_acc))) 0 = 28 / 3"
proof -
  let ?A = "one_point_mesh (-4)"
  let ?S = "UpdateStatePoint (\<lambda>i j. if i = I0 \<and> j = I0 then 4 else 0) identity 0 0 0 zero_stress 1 1"
  have d: "OoA_detF ?A 0 0 = -3" by (simp add: one_point_detF)
  have u: "point_update ?A UpdateStatePoint 0 0
     (zeros, (\<lambda>i j. if i = I0 \<and> j = I0 then - 4 else 0)) zero_stress = ?S"
    by (rule one_point_update) simp_all
  have n: "NUMQUADPTS ?A = Suc 0" "noElem ?A = Suc 0" "NODESPERELEM ?A = Suc 0"
    by (simp_all add: one_point_mesh_def)
  have m: "imeanStress ?S 0 = 4"
    by (simp add: UpdateStatePoint_mean trace_def zero_stress_def)
  have T: "assemble_TotalStress ?S 0 0 0 I0 I0 = 28 / 3"
    by (simp add: assemble_TotalStress_eq m)
       (simp add: UpdateStatePoint_def Let_def rotate_identity read_symmetric_eq
          store_symmetric_def mirrored_def deviatoric_increment_def trace_def zero_stress_def,
        simp add: identity_def)
  have Fi: "Finverse (end_of_step_F zeros (\<lambda>i j. if i = I0 \<and> j = I0 then - 4 else 0)) I0 I0 = - 1 / 3"
       "Finverse (end_of_step_F zeros (\<lambda>i j. if i = I0 \<and> j = I0 then - 4 else 0)) I0 I1 = 0"
       "Finverse (end_of_step_F zeros (\<lambda>i j. if i = I0 \<and> j = I0 then - 4 else 0)) I0 I2 = 0"
       "det (end_of_step_F zeros (\<lambda>i j. if i = I0 \<and> j = I0 then - 4 else 0)) = - 3"
    by (simp_all add: Finverse_def cofactor_def nxt_def det_def end_of_step_F_def identity_def zeros_def)
  have k: "ObjectOfArraysKernel ?A UpdateStatePoint (zero_stress, zero_acc) =
        OoA_element ?A UpdateStatePoint 0 (zero_stress, zero_acc)"
    by (simp add: ObjectOfArraysKernel_def forall_in_set_eq one_point_elements)
  have e: "OoA_element ?A UpdateStatePoint 0 (zero_stress, zero_acc) =
     (let (S, f_x, f_y, f_z) = OoA_point ?A UpdateStatePoint 0 (OoA_locals ?A 0) 0
                (zero_stress, (\<lambda>a. 0), (\<lambda>a. 0), (\<lambda>a. 0))
      in (S, AddLocalToGlobal (nodeList_of ?A 0) (Suc 0) f_x f_y f_z zero_acc))"
    by (simp add: OoA_element_eq n for_upto_Suc for_upto_0)
  have "fst (snd (OoA_element ?A UpdateStatePoint 0 (zero_stress, zero_acc))) 0 = 28 / 3"
    unfolding e OoA_point_eq one_point_gradients Let_def
    apply (simp add: u split_def Integrate_def n for_upto_Suc for_upto_0 AddLocalToGlobal_def
        scatter_add_def zero_acc_def nodeList_of_def AijBkj_def T Fi)
    apply (simp add: one_point_mesh_def T)
    done
  moreover have "imeanStress (fst (OoA_element ?A UpdateStatePoint 0 (zero_stress, zero_acc))) 0 = 4"
    unfolding e OoA_point_eq one_point_gradients Let_def
    by (simp add: u split_def m)
  ultimately show ?thesis using d k by simp
qed

text \<open>
  C1, amended. The kernel performs the constitutive update and the force integration
  at every quadrature point of every element it visits, whatever the sign of \<open>detF\<close>:
  it runs the element body on each element of its list in turn; the element body runs
  the quadrature loop from zero local forces and adds the local forces it ends with to
  the accelerations of the element's nodes; a quadrature point applies the update of
  the function pointer to the stress arrays and adds to the local forces
  \<^verbatim>\<open>Integrate\<close> with the \<open>detF\<close> and \<open>Finv\<close> computed there and the total stress of the
  updated state. So the stress arrays the kernel returns are the input arrays with the
  update applied at each point in loop order.
\<close>

theorem no_determinant_check:
  "ObjectOfArraysKernel A upd (S, iacc) = fold (OoA_element A upd) (elements A) (S, iacc)
   \<and> OoA_element A upd k (S, ax, ay, az) =
       (let (S', f_x, f_y, f_z) =
              for_upto (NUMQUADPTS A) (OoA_point A upd k (OoA_locals A k))
                (S, (\<lambda>a. 0), (\<lambda>a. 0), (\<lambda>a. 0))
        in (S', (\<lambda>node. ax node + contribution (nodeList_of A k) (NODESPERELEM A) f_x node),
                (\<lambda>node. ay node + contribution (nodeList_of A k) (NODESPERELEM A) f_y node),
                (\<lambda>node. az node + contribution (nodeList_of A k) (NODESPERELEM A) f_z node)))
   \<and> OoA_point A upd k (OoA_locals A k) q (S, fx, fy, fz) =
       (point_update A upd k q (OoA_gradients A k q (OoA_locals A k)) S,
        Integrate fx fy fz (idetJ A k q) (OoA_detF A k q)
         (snd (snd (point_kinematics (fst (OoA_gradients A k q (OoA_locals A k)))
                      (snd (OoA_gradients A k q (OoA_locals A k))) (dt A))))
         (assemble_TotalStress
            (point_update A upd k q (OoA_gradients A k q (OoA_locals A k)) S)
            k q (iconstitutiveMap A k q))
         (idNdX_x A) (idNdX_y A) (idNdX_z A) k q (NODESPERELEM A))
   \<and> fst (ObjectOfArraysKernel A upd (S, iacc)) =
     fold (\<lambda>k. for_upto (NUMQUADPTS A)
       (\<lambda>q. point_update A upd k q (OoA_gradients A k q (OoA_locals A k)))) (elements A) S"
proof -
  have a: "ObjectOfArraysKernel A upd (S, iacc) = fold (OoA_element A upd) (elements A) (S, iacc)"
    by (simp add: ObjectOfArraysKernel_def forall_in_set_eq)
  have b: "OoA_element A upd k (S, ax, ay, az) =
       (let (S', f_x, f_y, f_z) =
              for_upto (NUMQUADPTS A) (OoA_point A upd k (OoA_locals A k))
                (S, (\<lambda>a. 0), (\<lambda>a. 0), (\<lambda>a. 0))
        in (S', (\<lambda>node. ax node + contribution (nodeList_of A k) (NODESPERELEM A) f_x node),
                (\<lambda>node. ay node + contribution (nodeList_of A k) (NODESPERELEM A) f_y node),
                (\<lambda>node. az node + contribution (nodeList_of A k) (NODESPERELEM A) f_z node)))"
    by (simp add: OoA_element_eq AddLocalToGlobal_apply split_def Let_def)
  have c: "OoA_point A upd k (OoA_locals A k) q (S, fx, fy, fz) =
       (point_update A upd k q (OoA_gradients A k q (OoA_locals A k)) S,
        Integrate fx fy fz (idetJ A k q) (OoA_detF A k q)
         (snd (snd (point_kinematics (fst (OoA_gradients A k q (OoA_locals A k)))
                      (snd (OoA_gradients A k q (OoA_locals A k))) (dt A))))
         (assemble_TotalStress
            (point_update A upd k q (OoA_gradients A k q (OoA_locals A k)) S)
            k q (iconstitutiveMap A k q))
         (idNdX_x A) (idNdX_y A) (idNdX_z A) k q (NODESPERELEM A))"
    by (simp add: OoA_point_eq OoA_detF_def point_kinematics_eq Let_def split_def)
  have d: "fst (ObjectOfArraysKernel A upd (S, iacc)) =
     fold (\<lambda>k. for_upto (NUMQUADPTS A)
       (\<lambda>q. point_update A upd k q (OoA_gradients A k q (OoA_locals A k)))) (elements A) S"
    by (simp add: ObjectOfArraysKernel_def forall_in_set_eq fst_fold_OoA_element)
  from a b c d show ?thesis by blast
qed

section \<open>The order of the scatter\<close>

lemma ulp_small: "m < 2 ^ 53 \<Longrightarrow> ulp m = 1"
  by (simp add: ulp.simps)

lemma round53_exact: "\<bar>x\<bar> < 2 ^ 53 \<Longrightarrow> round53 x = x"
proof -
  assume a: "\<bar>x\<bar> < 2 ^ 53"
  then have "nat \<bar>x\<bar> < 2 ^ 53" by (simp add: nat_less_iff)
  then have "ulp (nat \<bar>x\<bar>) = 1" by (rule ulp_small)
  then show ?thesis by (simp add: round53_def Let_def mult_sgn_abs)
qed

lemma round53_tie: "round53 (2 ^ 53 + 1) = 2 ^ 53"
proof -
  have "ulp (nat \<bar>2 ^ 53 + 1\<bar>) = 2" by (simp add: ulp.simps)
  then show ?thesis by (simp add: round53_def Let_def)
qed

lemma round53_power: "round53 (2 ^ 53) = 2 ^ 53"
proof -
  have "ulp (nat \<bar>2 ^ 53\<bar>) = 2" by (simp add: ulp.simps)
  then show ?thesis by (simp add: round53_def Let_def)
qed

lemma Dbl_dbl_val: "Dbl (dbl_val x) = x"
  by (cases x) (simp add: dbl_val_def)

lemma contribution_Suc:
  "contribution nl (Suc n) g node = contribution nl n g node + (if nl n = node then g n else 0)"
  by (simp add: contribution_def)

lemma abs_contribution:
  fixes g :: "nat \<Rightarrow> int"
  shows "\<bar>contribution nl n g node\<bar> \<le> contribution nl n (\<lambda>a. \<bar>g a\<bar>) node"
proof (induction n)
  case 0
  show ?case by (simp add: contribution_def)
next
  case (Suc n)
  have "\<bar>contribution nl n g node + g n\<bar> \<le> \<bar>contribution nl n g node\<bar> + \<bar>g n\<bar>"
    by (rule abs_triangle_ineq)
  with Suc show ?case by (simp add: contribution_Suc)
qed

lemma contribution_abs_nonneg:
  fixes g :: "nat \<Rightarrow> int"
  shows "0 \<le> contribution nl n (\<lambda>a. \<bar>g a\<bar>) node"
  using abs_contribution [of nl n g node] by simp

lemma scatter_add_dbl:
  fixes acc :: "nat \<Rightarrow> dbl"
  assumes "\<bar>dbl_val (acc node)\<bar> + contribution nl n (\<lambda>a. \<bar>dbl_val (f a)\<bar>) node < 2 ^ 53"
  shows "scatter_add nl n f acc node =
           Dbl (dbl_val (acc node) + contribution nl n (\<lambda>a. dbl_val (f a)) node)"
  using assms
proof (induction n)
  case 0
  show ?case by (simp add: scatter_add_def for_upto_0 contribution_def Dbl_dbl_val)
next
  case (Suc n)
  have s: "scatter_add nl (Suc n) f acc =
      (scatter_add nl n f acc)(nl n := scatter_add nl n f acc (nl n) + f n)"
    by (simp add: scatter_add_def for_upto_Suc)
  from Suc.prems
  have b: "\<bar>dbl_val (acc node)\<bar> + contribution nl n (\<lambda>a. \<bar>dbl_val (f a)\<bar>) node
             + (if nl n = node then \<bar>dbl_val (f n)\<bar> else 0) < 2 ^ 53"
    by (simp add: contribution_Suc)
  moreover have "0 \<le> (if nl n = node then \<bar>dbl_val (f n)\<bar> else 0)"
    by simp
  ultimately
  have "\<bar>dbl_val (acc node)\<bar> + contribution nl n (\<lambda>a. \<bar>dbl_val (f a)\<bar>) node < 2 ^ 53"
    by linarith
  then have i: "scatter_add nl n f acc node =
           Dbl (dbl_val (acc node) + contribution nl n (\<lambda>a. dbl_val (f a)) node)"
    by (rule Suc.IH)
  show ?case
  proof (cases "nl n = node")
    case False
    with i show ?thesis by (simp add: s contribution_Suc)
  next
    case True
    define v c d C where "v = dbl_val (acc node)"
      and "c = contribution nl n (\<lambda>a. dbl_val (f a)) node"
      and "d = dbl_val (f n)"
      and "C = contribution nl n (\<lambda>a. \<bar>dbl_val (f a)\<bar>) node"
    have "\<bar>c\<bar> \<le> C"
      unfolding c_def C_def by (rule abs_contribution)
    moreover from b True have "\<bar>v\<bar> + C + \<bar>d\<bar> < 2 ^ 53"
      unfolding v_def d_def C_def by simp
    ultimately have "\<bar>v + c + d\<bar> < 2 ^ 53" by linarith
    then have "\<bar>dbl_val (acc node) + contribution nl n (\<lambda>a. dbl_val (f a)) node + dbl_val (f n)\<bar>
            < 2 ^ 53" unfolding v_def c_def d_def .
    then have "round53 (dbl_val (acc node) + contribution nl n (\<lambda>a. dbl_val (f a)) node
                 + dbl_val (f n))
       = dbl_val (acc node) + contribution nl n (\<lambda>a. dbl_val (f a)) node + dbl_val (f n)"
      by (rule round53_exact)
    with i True show ?thesis
      by (simp add: s contribution_Suc plus_dbl_def dbl_val_def)
  qed
qed

lemma magnitude_Cons:
  "magnitude nodes n f (k # ks) acc node =
     \<bar>dbl_val (acc node)\<bar> + contribution (nodes k) n (\<lambda>a. \<bar>dbl_val (f k a)\<bar>) node
       + (\<Sum>k\<leftarrow>ks. contribution (nodes k) n (\<lambda>a. \<bar>dbl_val (f k a)\<bar>) node)"
  by (simp add: magnitude_def)

lemma magnitude_rest_nonneg:
  "0 \<le> (\<Sum>k\<leftarrow>ks. contribution (nodes k) n (\<lambda>a. \<bar>dbl_val (f k a)\<bar>) node)"
  by (rule sum_list_nonneg) (auto simp add: contribution_abs_nonneg)

lemma fold_scatter_add_dbl:
  fixes acc :: "nat \<Rightarrow> dbl"
  assumes "magnitude nodes n f ks acc node < 2 ^ 53"
  shows "fold (\<lambda>k. scatter_add (nodes k) n (f k)) ks acc node =
           Dbl (exact_total nodes n f ks acc node)"
  using assms
proof (induction ks arbitrary: acc)
  case Nil
  show ?case by (simp add: exact_total_def Dbl_dbl_val)
next
  case (Cons k ks)
  define acc' where "acc' = scatter_add (nodes k) n (f k) acc"
  define v c C R where "v = dbl_val (acc node)"
    and "c = contribution (nodes k) n (\<lambda>a. dbl_val (f k a)) node"
    and "C = contribution (nodes k) n (\<lambda>a. \<bar>dbl_val (f k a)\<bar>) node"
    and "R = (\<Sum>k\<leftarrow>ks. contribution (nodes k) n (\<lambda>a. \<bar>dbl_val (f k a)\<bar>) node)"
  have b: "\<bar>v\<bar> + C + R < 2 ^ 53"
    using Cons.prems unfolding magnitude_Cons v_def C_def R_def .
  have r: "0 \<le> R"
    unfolding R_def by (rule magnitude_rest_nonneg)
  have t: "\<bar>c\<bar> \<le> C"
    unfolding c_def C_def by (rule abs_contribution)
  from b r have "\<bar>v\<bar> + C < 2 ^ 53" by linarith
  then have "acc' node = Dbl (v + c)"
    unfolding acc'_def v_def c_def C_def by (rule scatter_add_dbl)
  then have v': "dbl_val (acc' node) = v + c"
    by (simp add: dbl_val_def)
  from b t have "\<bar>v + c\<bar> + R < 2 ^ 53" by linarith
  then have "magnitude nodes n f ks acc' node < 2 ^ 53"
    unfolding magnitude_def v' R_def .
  then have "fold (\<lambda>k. scatter_add (nodes k) n (f k)) ks acc' node =
           Dbl (exact_total nodes n f ks acc' node)"
    by (rule Cons.IH)
  moreover have "exact_total nodes n f ks acc' node = exact_total nodes n f (k # ks) acc node"
    unfolding exact_total_def v' v_def c_def by simp
  ultimately show ?case
    unfolding acc'_def by simp
qed

lemma magnitude_permuted:
  assumes "mset ks' = mset ks"
  shows "magnitude nodes n f ks' acc node = magnitude nodes n f ks acc node"
  by (simp add: magnitude_def sum_list_permuted [OF assms])

lemma exact_total_permuted:
  assumes "mset ks' = mset ks"
  shows "exact_total nodes n f ks' acc node = exact_total nodes n f ks acc node"
  by (simp add: exact_total_def sum_list_permuted [OF assms])

text \<open>
  C9, as the claim states it, fails: on doubles the total is not bit-identical for
  every order. Three elements add \<open>2^53\<close>, 1 and \<open>-2^53\<close> to the slot of one node that
  holds 0. In the order 0, 1, 2 the 1 is rounded away and the slot ends with 0; in the
  order 0, 2, 1 it ends with 1, the arithmetic sum.
\<close>

theorem rounded_scatter_counterexample:
  "mset [0, 2, 1::nat] = mset [0, 1, 2]
   \<and> fst (fold (\<lambda>k. AddLocalToGlobal (\<lambda>a. 0) 1 (cancelling k) (cancelling k) (cancelling k))
          [0, 1, 2] dbl_zero_acc) 0 = Dbl 0
   \<and> fst (fold (\<lambda>k. AddLocalToGlobal (\<lambda>a. 0) 1 (cancelling k) (cancelling k) (cancelling k))
          [0, 2, 1] dbl_zero_acc) 0 = Dbl 1"
  by (simp add: AddLocalToGlobal_def scatter_add_def for_upto_Suc for_upto_0 dbl_zero_acc_def
      cancelling_def plus_dbl_def dbl_val_def round53_tie [simplified]
      round53_power [simplified] round53_exact)




text \<open>
  C9, amended. With the elements' local forces given, and additions that are exact,
  the totals \<^verbatim>\<open>AddLocalToGlobal\<close> leaves in the global arrays are the same for every
  permutation of the order in which the elements are processed, and each node's total
  is its initial value plus the sum of the contributions of all elements to that node.
  This holds for scalars that are a commutative monoid under addition, the exact reals
  among them; and it holds bit for bit on the doubles of integer value for a node
  where the magnitudes of the initial value and of the contributions sum to less than
  \<open>2^53\<close>, so that no addition rounds.
\<close>

theorem scatter_order_independent:
  fixes ax ay az :: "nat \<Rightarrow> 'a::comm_monoid_add" and ks ks' :: "nat list"
    and dx dy dz :: "nat \<Rightarrow> dbl"
  assumes "mset ks' = mset ks"
  shows "fold (\<lambda>k. AddLocalToGlobal (nodes k) n (fx k) (fy k) (fz k)) ks' (ax, ay, az) =
         fold (\<lambda>k. AddLocalToGlobal (nodes k) n (fx k) (fy k) (fz k)) ks (ax, ay, az)
     \<and> fold (\<lambda>k. AddLocalToGlobal (nodes k) n (fx k) (fy k) (fz k)) ks (ax, ay, az) =
         ((\<lambda>node. ax node + (\<Sum>k\<leftarrow>ks. contribution (nodes k) n (fx k) node)),
          (\<lambda>node. ay node + (\<Sum>k\<leftarrow>ks. contribution (nodes k) n (fy k) node)),
          (\<lambda>node. az node + (\<Sum>k\<leftarrow>ks. contribution (nodes k) n (fz k) node)))
     \<and> (magnitude nodes n gx ks dx node < 2 ^ 53 \<and> magnitude nodes n gy ks dy node < 2 ^ 53
          \<and> magnitude nodes n gz ks dz node < 2 ^ 53 \<longrightarrow>
        at_node (fold (\<lambda>k. AddLocalToGlobal (nodes k) n (gx k) (gy k) (gz k)) ks' (dx, dy, dz))
          node =
         (Dbl (exact_total nodes n gx ks dx node), Dbl (exact_total nodes n gy ks dy node),
          Dbl (exact_total nodes n gz ks dz node)))"
proof -
  have "fold (\<lambda>k. scatter_add (nodes k) n (f k)) ks' acc =
        fold (\<lambda>k. scatter_add (nodes k) n (f k)) ks acc" for f and acc :: "nat \<Rightarrow> 'a"
    by (intro ext) (simp add: fold_scatter_add sum_list_permuted [OF assms])
  then have e: "fold (\<lambda>k. AddLocalToGlobal (nodes k) n (fx k) (fy k) (fz k)) ks' (ax, ay, az) =
         fold (\<lambda>k. AddLocalToGlobal (nodes k) n (fx k) (fy k) (fz k)) ks (ax, ay, az)
     \<and> fold (\<lambda>k. AddLocalToGlobal (nodes k) n (fx k) (fy k) (fz k)) ks (ax, ay, az) =
         ((\<lambda>node. ax node + (\<Sum>k\<leftarrow>ks. contribution (nodes k) n (fx k) node)),
          (\<lambda>node. ay node + (\<Sum>k\<leftarrow>ks. contribution (nodes k) n (fy k) node)),
          (\<lambda>node. az node + (\<Sum>k\<leftarrow>ks. contribution (nodes k) n (fz k) node)))"
    by (simp add: fold_AddLocalToGlobal) (auto simp add: fun_eq_iff fold_scatter_add)
  have d: "fold (\<lambda>k. scatter_add (nodes k) n (g k)) ks' acc node =
        Dbl (exact_total nodes n g ks acc node)"
    if "magnitude nodes n g ks acc node < 2 ^ 53" for g and acc :: "nat \<Rightarrow> dbl"
  proof -
    from that have "magnitude nodes n g ks' acc node < 2 ^ 53"
      by (simp only: magnitude_permuted [OF assms])
    then have "fold (\<lambda>k. scatter_add (nodes k) n (g k)) ks' acc node =
        Dbl (exact_total nodes n g ks' acc node)"
      by (rule fold_scatter_add_dbl)
    then show ?thesis by (simp only: exact_total_permuted [OF assms])
  qed
  from e d show ?thesis
    by (simp only: fold_AddLocalToGlobal at_node_def prod.case) blast
qed

theorem scatter_order_independent_witness:
  "mset [1, 0::nat] = mset [0, 1]
   \<and> fold (\<lambda>k. AddLocalToGlobal (\<lambda>a. 7) 1 (\<lambda>a. real k + 1) (\<lambda>a. 0) (\<lambda>a. 0)) [1, 0]
        ((\<lambda>n. 0), (\<lambda>n. 0), (\<lambda>n. 0)) =
      fold (\<lambda>k. AddLocalToGlobal (\<lambda>a. 7) 1 (\<lambda>a. real k + 1) (\<lambda>a. 0) (\<lambda>a. 0)) [0, 1]
        ((\<lambda>n. 0), (\<lambda>n. 0), (\<lambda>n. 0))
   \<and> fst (fold (\<lambda>k. AddLocalToGlobal (\<lambda>a. 7) 1 (\<lambda>a. real k + 1) (\<lambda>a. 0) (\<lambda>a. 0)) [0, 1]
        ((\<lambda>n. 0), (\<lambda>n. 0), (\<lambda>n. 0))) 7 = 3
   \<and> magnitude (\<lambda>k a. 7) 1 near_limit [0, 1] (\<lambda>n. Dbl 0) 7 < 2 ^ 53
   \<and> at_node (fold (\<lambda>k. AddLocalToGlobal (\<lambda>a. 7) 1 (near_limit k) (near_limit k) (near_limit k))
        [1, 0] dbl_zero_acc) 7 =
      (Dbl (2 ^ 53 - 1), Dbl (2 ^ 53 - 1), Dbl (2 ^ 53 - 1))"
proof -
  have m: "mset [1, 0::nat] = mset [0, 1]" by simp
  have b: "magnitude (\<lambda>k a. 7) 1 near_limit [0, 1] (\<lambda>n. Dbl 0) 7 < 2 ^ 53"
    by (simp add: magnitude_def contribution_def near_limit_def dbl_val_def)
  have t: "exact_total (\<lambda>k a. 7) 1 near_limit [0, 1] (\<lambda>n. Dbl 0) 7 = 2 ^ 53 - 1"
    by (simp add: exact_total_def contribution_def near_limit_def dbl_val_def)
  from scatter_order_independent [OF m, of "\<lambda>k a. 7" 1 "\<lambda>k a. real k + 1" "\<lambda>k a. 0" "\<lambda>k a. 0"
          "\<lambda>n. 0" "\<lambda>n. 0" "\<lambda>n. 0" near_limit "\<lambda>n. Dbl 0" 7 near_limit "\<lambda>n. Dbl 0"
          near_limit "\<lambda>n. Dbl 0"] m b t
  show ?thesis by (simp add: contribution_def dbl_zero_acc_def)
qed

section \<open>The split kernels and the monolithic kernel\<close>

lemma nine_set4:
  "set4 (set4 (set4 (set4 (set4 (set4 (set4 (set4 (set4 T
      k q I0 I0 (D I0 I0)) k q I0 I1 (D I0 I1)) k q I0 I2 (D I0 I2))
      k q I1 I0 (D I1 I0)) k q I1 I1 (D I1 I1)) k q I1 I2 (D I1 I2))
      k q I2 I0 (D I2 I0)) k q I2 I1 (D I2 I1)) k q I2 I2 (D I2 I2)
   = T(k := (T k)(q := D))"
proof -
  have "(T k q)(I0 := (T k q I0)(I0 := D I0 I0, I1 := D I0 I1, I2 := D I0 I2),
                I1 := (T k q I1)(I0 := D I1 I0, I1 := D I1 I1, I2 := D I1 I2),
                I2 := (T k q I2)(I0 := D I2 I0, I1 := D I2 I1, I2 := D I2 I2)) = D"
    apply (intro ext)
    subgoal for i j by (cases i; cases j; simp)
    done
  then show ?thesis by (simp add: set4_def set2_def)
qed

lemma AoO_Kinematic_point_eq:
  "AoO_Kinematic_point A k (AoO_locals A k) q B =
     (let (Dadt, Rot, detF, Finv) = AoO_kinematics A k q
      in \<lparr>Dadt_ptr = (Dadt_ptr B)(k := (Dadt_ptr B k)(q := Dadt)),
          Rot_ptr = (Rot_ptr B)(k := (Rot_ptr B k)(q := Rot)),
          detF_ptr = (detF_ptr B)(k := (detF_ptr B k)(q := detF)),
          Finv_ptr = (Finv_ptr B)(k := (Finv_ptr B k)(q := Finv))\<rparr>)"
  by (simp add: AoO_Kinematic_point_def AoO_kinematics_def Let_def split_def for_dim_def nine_set4)

lemma read_Kinematic_point:
  "read_buffers (AoO_Kinematic_point A k (AoO_locals A k) q B) k' q' =
     (if k' = k \<and> q' = q then AoO_kinematics A k q else read_buffers B k' q')"
  by (auto simp add: AoO_Kinematic_point_eq read_buffers_def split_def Let_def)

lemma read_Kinematic_element:
  "read_buffers (for_upto n (AoO_Kinematic_point A k (AoO_locals A k)) B) k' q' =
     (if k' = k \<and> q' < n then AoO_kinematics A k q' else read_buffers B k' q')"
  by (induction n) (auto simp add: for_upto_0 for_upto_Suc read_Kinematic_point less_Suc_eq)

lemma read_KinematicKernel:
  "read_buffers (fold (\<lambda>k. for_upto n (AoO_Kinematic_point A k (AoO_locals A k))) ks B) k' q' =
     (if k' \<in> set ks \<and> q' < n then AoO_kinematics A k' q' else read_buffers B k' q')"
  by (induction ks arbitrary: B) (auto simp add: read_Kinematic_element)

lemma KinematicKernel_eq:
  "ArrayOfObjects_KinematicKernel A B =
     fold (\<lambda>k. for_upto (NUMQUADPTS A) (AoO_Kinematic_point A k (AoO_locals A k))) (elements A) B"
  by (simp add: ArrayOfObjects_KinematicKernel_def forall_in_set_eq AoO_locals_def Let_def)

lemma buffers_after_KinematicKernel:
  assumes "k \<in> set (elements A)" "q < NUMQUADPTS A"
  shows "read_buffers (ArrayOfObjects_KinematicKernel A B) k q = AoO_kinematics A k q"
  using assms by (simp add: KinematicKernel_eq read_KinematicKernel)

lemma interleaved_view:
  assumes frame: "\<And>x y s. x \<in> D \<Longrightarrow> y \<in> D \<Longrightarrow> x \<noteq> y \<Longrightarrow> v x (u y s) = v x s"
    and "x \<in> D" "x \<notin> set ys" "set ys \<subseteq> D"
  shows "v x (fold u ys s) = v x s"
  using assms(2-) by (induction ys arbitrary: s) (auto simp add: frame)

lemma interleaved_fold:
  assumes frame: "\<And>x y s. x \<in> D \<Longrightarrow> y \<in> D \<Longrightarrow> x \<noteq> y \<Longrightarrow> v x (u y s) = v x s"
    and loc: "\<And>x s s'. x \<in> D \<Longrightarrow> v x s = v x s' \<Longrightarrow> g x s = g x s'"
    and "distinct xs" "set xs \<subseteq> D"
  shows "fold (\<lambda>x (s, f). (u x s, g x (u x s) f)) xs (s, f) =
           (fold u xs s, fold (\<lambda>x. g x (fold u xs s)) xs f)"
  using assms(3-)
proof (induction xs arbitrary: s f)
  case Nil
  show ?case by simp
next
  case (Cons x xs)
  have "v x (fold u xs (u x s)) = v x (u x s)"
    using Cons.prems by (intro interleaved_view [where D = D and v = v] frame) auto
  then have "g x (fold u xs (u x s)) = g x (u x s)"
    using Cons.prems by (intro loc) auto
  with Cons.IH [of "u x s" "g x (u x s) f"] Cons.prems show ?case by simp
qed

lemma AoO_point_form:
  "AoO_point A UpdateStatePoint k (AoO_locals A k) =
     (\<lambda>q (S, f). (AoO_update A k q S, AoO_force A k q (AoO_update A k q S) f))"
  by (intro ext) (auto simp add: AoO_point_eq AoO_update_def AoO_force_def Let_def split_def)

lemma AoO_element_form:
  "AoO_element A UpdateStatePoint k = (\<lambda>(S, iacc).
     (let (S', f) = for_upto (NUMQUADPTS A)
            (\<lambda>q (S, f). (AoO_update A k q S, AoO_force A k q (AoO_update A k q S) f))
            (S, (\<lambda>a i. 0))
      in (S', AddLocalToGlobal_AoO (nodeList_of A k) (NODESPERELEM A) f iacc)))"
  by (intro ext) (simp add: AoO_element_def AoO_locals_def [symmetric] AoO_point_form Let_def split_def)

lemma AoO_update_dev_frame:
  "k' \<noteq> k \<or> q' \<noteq> q \<Longrightarrow> idevStressData (AoO_update A k q S) k' q' = idevStressData S k' q'"
  by (simp add: AoO_update_def point_update_def split_def Let_def UpdateStatePoint_dev_frame)

lemma AoO_update_mean_frame:
  "m \<noteq> iconstitutiveMap A k q \<Longrightarrow> imeanStress (AoO_update A k q S) m = imeanStress S m"
  by (simp add: AoO_update_def point_update_def split_def Let_def UpdateStatePoint_mean)

lemma AoO_update_point_frame:
  assumes "k' \<noteq> k \<or> q' \<noteq> q" "iconstitutiveMap A k' q' \<noteq> iconstitutiveMap A k q"
  shows "point_state (iconstitutiveMap A) (AoO_update A k q S) k' q' =
         point_state (iconstitutiveMap A) S k' q'"
  using assms by (simp add: point_state_def AoO_update_dev_frame AoO_update_mean_frame)

lemma AoO_force_local:
  assumes "point_state (iconstitutiveMap A) S k q = point_state (iconstitutiveMap A) S' k q"
  shows "AoO_force A k q S = AoO_force A k q S'"
  using assms by (intro ext) (simp add: AoO_force_def point_state_def assemble_TotalStress_eq)

lemma constitutive_map_distinct:
  assumes inj: "inj_on (\<lambda>(k, q). iconstitutiveMap A k q) (set (elements A) \<times> {0..<NUMQUADPTS A})"
    and "k \<in> set (elements A)" "q < NUMQUADPTS A" "k' \<in> set (elements A)" "q' < NUMQUADPTS A"
    and "k' \<noteq> k \<or> q' \<noteq> q"
  shows "iconstitutiveMap A k' q' \<noteq> iconstitutiveMap A k q"
proof
  assume "iconstitutiveMap A k' q' = iconstitutiveMap A k q"
  with inj_onD [OF inj, of "(k', q')" "(k, q)"] assms(2-5) have "(k', q') = (k, q)" by simp
  with assms(6) show False by simp
qed

text \<open>The quadrature loop of one element, with the updates and the forces apart.\<close>

lemma AoO_quadrature_loop:
  assumes inj: "inj_on (\<lambda>(k, q). iconstitutiveMap A k q) (set (elements A) \<times> {0..<NUMQUADPTS A})"
    and k: "k \<in> set (elements A)"
  shows "for_upto (NUMQUADPTS A)
            (\<lambda>q (S, f). (AoO_update A k q S, AoO_force A k q (AoO_update A k q S) f)) (S, f) =
         (for_upto (NUMQUADPTS A) (AoO_update A k) S,
          for_upto (NUMQUADPTS A)
            (\<lambda>q. AoO_force A k q (for_upto (NUMQUADPTS A) (AoO_update A k) S)) f)"
proof -
  have frame: "point_state (iconstitutiveMap A) (AoO_update A k y s) k x =
                point_state (iconstitutiveMap A) s k x"
    if "x \<in> {0..<NUMQUADPTS A}" "y \<in> {0..<NUMQUADPTS A}" "x \<noteq> y" for x y s
    using that constitutive_map_distinct [OF inj k _ k, of y x]
    by (intro AoO_update_point_frame) auto
  have loc: "AoO_force A k x s = AoO_force A k x s'"
    if "point_state (iconstitutiveMap A) s k x = point_state (iconstitutiveMap A) s' k x"
    for x s s'
    using that by (rule AoO_force_local)
  have "distinct [0..<NUMQUADPTS A]" "set [0..<NUMQUADPTS A] \<subseteq> {0..<NUMQUADPTS A}"
    by simp_all
  from interleaved_fold [where D = "{0..<NUMQUADPTS A}"
        and v = "\<lambda>q S. point_state (iconstitutiveMap A) S k q"
        and u = "AoO_update A k" and g = "AoO_force A k", OF frame loc this]
  show ?thesis unfolding for_upto_def by blast
qed

lemma AoO_element_apart:
  assumes inj: "inj_on (\<lambda>(k, q). iconstitutiveMap A k q) (set (elements A) \<times> {0..<NUMQUADPTS A})"
    and k: "k \<in> set (elements A)"
  shows "AoO_element A UpdateStatePoint k (S, iacc) =
     (AoO_element_update A k S,
      AddLocalToGlobal_AoO (nodeList_of A k) (NODESPERELEM A)
        (AoO_element_force A k (AoO_element_update A k S)) iacc)"
  by (simp add: AoO_element_form AoO_quadrature_loop [OF inj k] AoO_element_update_def
      AoO_element_force_def)

lemma AoO_element_update_frame:
  assumes inj: "inj_on (\<lambda>(k, q). iconstitutiveMap A k q) (set (elements A) \<times> {0..<NUMQUADPTS A})"
    and "k \<in> set (elements A)" "k' \<in> set (elements A)" "k \<noteq> k'" "q < NUMQUADPTS A"
    and "n \<le> NUMQUADPTS A"
  shows "point_state (iconstitutiveMap A) (for_upto n (AoO_update A k') S) k q =
         point_state (iconstitutiveMap A) S k q"
  using assms(6)
proof (induction n)
  case 0
  show ?case by (simp add: for_upto_0)
next
  case (Suc n)
  have "iconstitutiveMap A k q \<noteq> iconstitutiveMap A k' n"
    using Suc.prems assms(2-5) by (intro constitutive_map_distinct [OF inj]) auto
  with Suc assms(4) show ?case
    by (simp add: for_upto_Suc AoO_update_point_frame)
qed

lemma AoO_element_force_local:
  assumes "\<And>q. q < NUMQUADPTS A \<Longrightarrow>
     point_state (iconstitutiveMap A) S k q = point_state (iconstitutiveMap A) S' k q"
  shows "AoO_element_force A k S = AoO_element_force A k S'"
  unfolding AoO_element_force_def
  by (rule for_upto_cong) (simp add: AoO_force_local [OF assms])

lemma monolithic_apart:
  assumes inj: "inj_on (\<lambda>(k, q). iconstitutiveMap A k q) (set (elements A) \<times> {0..<NUMQUADPTS A})"
    and dis: "distinct (elements A)"
  shows "ArrayOfObjectsKernel A UpdateStatePoint (S, iacc) =
     (fold (AoO_element_update A) (elements A) S,
      fold (\<lambda>k. AddLocalToGlobal_AoO (nodeList_of A k) (NODESPERELEM A)
              (AoO_element_force A k (fold (AoO_element_update A) (elements A) S)))
        (elements A) iacc)"
proof -
  let ?v = "\<lambda>k S q. if q < NUMQUADPTS A then Some (point_state (iconstitutiveMap A) S k q) else None"
  let ?g = "\<lambda>k S. AddLocalToGlobal_AoO (nodeList_of A k) (NODESPERELEM A) (AoO_element_force A k S)"
  have frame: "?v x (AoO_element_update A y s) = ?v x s"
    if "x \<in> set (elements A)" "y \<in> set (elements A)" "x \<noteq> y" for x y s
    using that by (auto simp add: AoO_element_update_def AoO_element_update_frame [OF inj])
  have loc: "?g x s = ?g x s'" if "?v x s = ?v x s'" for x s s'
  proof -
    have "point_state (iconstitutiveMap A) s x q = point_state (iconstitutiveMap A) s' x q"
      if "q < NUMQUADPTS A" for q
      using fun_cong [OF \<open>?v x s = ?v x s'\<close>, of q] that by simp
    then show ?thesis by (simp add: AoO_element_force_local [of A s x s'])
  qed
  have "fold (AoO_element A UpdateStatePoint) (elements A) (S, iacc) =
        fold (\<lambda>k (S, iacc). (AoO_element_update A k S, ?g k (AoO_element_update A k S) iacc))
          (elements A) (S, iacc)"
    by (rule fold_cong) (auto simp add: AoO_element_apart [OF inj])
  also have "\<dots> = (fold (AoO_element_update A) (elements A) S,
      fold (\<lambda>k. ?g k (fold (AoO_element_update A) (elements A) S)) (elements A) iacc)"
    using interleaved_fold [where D = "set (elements A)" and v = ?v
        and u = "AoO_element_update A" and g = ?g, OF frame loc dis]
    by blast
  finally show ?thesis
    by (simp add: ArrayOfObjectsKernel_def forall_in_set_eq)
qed

lemma AoO_update_kinematics:
  "AoO_update A k q S =
     (let (Dadt, Rot, detF, Finv) = AoO_kinematics A k q
      in UpdateStatePoint Dadt Rot (iconstitutiveMap A k q) q k S
           (ishearModulus A) (ibulkModulus A))"
  by (simp add: AoO_update_def point_update_def AoO_kinematics_def Let_def split_def)

lemma AoO_force_kinematics:
  "AoO_force A k q S f =
     (let (Dadt, Rot, detF, Finv) = AoO_kinematics A k q
      in Integrate_AoO f (idetJ A k q) detF Finv
           (assemble_TotalStress S k q (iconstitutiveMap A k q))
           (idNdX A) k q (NODESPERELEM A))"
  by (simp add: AoO_force_def AoO_kinematics_def point_kinematics_eq Let_def split_def)

lemma ConstitutiveUpdate_after_kinematics:
  assumes "k \<in> set (elements A)" "q < NUMQUADPTS A"
  shows "ConstitutiveUpdate_point (Dadt_ptr (ArrayOfObjects_KinematicKernel A B0))
           (Rot_ptr (ArrayOfObjects_KinematicKernel A B0)) (iconstitutiveMap A)
           (ishearModulus A) (ibulkModulus A) k q S = AoO_update A k q S"
  using buffers_after_KinematicKernel [OF assms, of B0, symmetric]
  by (simp add: ConstitutiveUpdate_point_eq AoO_update_kinematics read_buffers_def)

lemma Integration_after_kinematics:
  assumes "k \<in> set (elements A)" "q < NUMQUADPTS A"
  shows "AoO_Integration_point A (ArrayOfObjects_KinematicKernel A B0) S k q f =
         AoO_force A k q S f"
  using buffers_after_KinematicKernel [OF assms, of B0, symmetric]
  by (simp add: AoO_Integration_point_def AoO_force_kinematics read_buffers_def)

lemma split_kernels_apart:
  "split_kernels A B0 (S, iacc) =
     (fold (AoO_element_update A) (elements A) S,
      fold (\<lambda>k. AddLocalToGlobal_AoO (nodeList_of A k) (NODESPERELEM A)
              (AoO_element_force A k (fold (AoO_element_update A) (elements A) S)))
        (elements A) iacc)"
proof -
  let ?B = "ArrayOfObjects_KinematicKernel A B0"
  have S2: "ConstitutiveUpdateKernel (NUMQUADPTS A) (noElem A) (elemList A)
                (Dadt_ptr ?B) (Rot_ptr ?B) (iconstitutiveMap A)
                (ishearModulus A) (ibulkModulus A) S = fold (AoO_element_update A) (elements A) S"
    unfolding ConstitutiveUpdateKernel_def forall_in_set_eq
  proof (rule fold_cong)
    fix k assume "k \<in> set (elements A)"
    then show "for_upto (NUMQUADPTS A) (ConstitutiveUpdate_point (Dadt_ptr ?B) (Rot_ptr ?B)
           (iconstitutiveMap A) (ishearModulus A) (ibulkModulus A) k) = AoO_element_update A k"
      unfolding AoO_element_update_def
      by (intro ext for_upto_cong) (simp add: ConstitutiveUpdate_after_kinematics)
  qed simp_all
  have I: "ArrayOfObjects_IntegrationKernel A ?B S' iacc =
      fold (\<lambda>k. AddLocalToGlobal_AoO (nodeList_of A k) (NODESPERELEM A)
              (AoO_element_force A k S')) (elements A) iacc" for S'
    unfolding ArrayOfObjects_IntegrationKernel_def forall_in_set_eq Let_def
  proof (rule fold_cong)
    fix k assume k: "k \<in> set (elements A)"
    have "for_upto (NUMQUADPTS A) (AoO_Integration_point A ?B S' k) (\<lambda>a i. 0) =
          AoO_element_force A k S'"
      unfolding AoO_element_force_def
      by (rule for_upto_cong) (simp add: Integration_after_kinematics [OF k])
    then show "AddLocalToGlobal_AoO (nodeList_of A k) (NODESPERELEM A)
            (for_upto (NUMQUADPTS A) (AoO_Integration_point A ?B S' k) (\<lambda>a i. 0)) =
          AddLocalToGlobal_AoO (nodeList_of A k) (NODESPERELEM A) (AoO_element_force A k S')"
      by simp
  qed simp_all
  show ?thesis
    by (simp add: split_kernels_def Let_def S2 I)
qed

lemma fst_AoO_quadrature_loop:
  "fst (for_upto n (\<lambda>q (S, f). (u q S, g q (u q S) f)) (S, f)) = for_upto n u S"
  by (induction n) (simp_all add: for_upto_0 for_upto_Suc split_def)

lemma fst_AoO_element:
  "fst (AoO_element A UpdateStatePoint k (S, iacc)) = AoO_element_update A k S"
proof -
  obtain S' f where r: "for_upto (NUMQUADPTS A)
      (\<lambda>q (S, f). (AoO_update A k q S, AoO_force A k q (AoO_update A k q S) f))
      (S, (\<lambda>a i. 0)) = (S', f)"
    by (cases "for_upto (NUMQUADPTS A)
      (\<lambda>q (S, f). (AoO_update A k q S, AoO_force A k q (AoO_update A k q S) f))
      (S, (\<lambda>a i. 0))")
  from fst_AoO_quadrature_loop [of "NUMQUADPTS A" "AoO_update A k" "AoO_force A k" S "\<lambda>a i. 0"] r
  have "S' = for_upto (NUMQUADPTS A) (AoO_update A k) S" by simp
  with r show ?thesis
    by (simp add: AoO_element_form AoO_element_update_def)
qed

lemma fst_fold_AoO_element:
  "fst (fold (AoO_element A UpdateStatePoint) ks (S, iacc)) = fold (AoO_element_update A) ks S"
proof (induction ks arbitrary: S iacc)
  case Nil
  show ?case by simp
next
  case (Cons k ks)
  obtain S' iacc' where r: "AoO_element A UpdateStatePoint k (S, iacc) = (S', iacc')"
    by (cases "AoO_element A UpdateStatePoint k (S, iacc)")
  from fst_AoO_element [of A k S iacc] r have "S' = AoO_element_update A k S" by simp
  with Cons [of S' iacc'] r show ?case by simp
qed

lemma monolithic_stress:
  "fst (ArrayOfObjectsKernel A UpdateStatePoint (S, iacc)) =
     fold (AoO_element_update A) (elements A) S"
  by (simp add: ArrayOfObjectsKernel_def forall_in_set_eq fst_fold_AoO_element)

text \<open>
  C7, amended. The three split kernels run one after the other (kinematic,
  constitutive update, integration) leave the same stress arrays as one run of the
  monolithic kernel with the linear-elastic update, for every input and whatever the
  buffers held before. They leave the same nodal accelerations as well when the
  kernels visit no element twice and the constitutive map sends the visited points to
  pairwise different material indices.
\<close>

theorem split_kernels_equal_monolithic:
  "fst (split_kernels A B0 (S, iacc)) = fst (ArrayOfObjectsKernel A UpdateStatePoint (S, iacc))
   \<and> (distinct (elements A)
        \<and> inj_on (\<lambda>(k, q). iconstitutiveMap A k q) (set (elements A) \<times> {0..<NUMQUADPTS A})
      \<longrightarrow> split_kernels A B0 (S, iacc) = ArrayOfObjectsKernel A UpdateStatePoint (S, iacc))"
proof (intro conjI impI)
  show "fst (split_kernels A B0 (S, iacc)) =
          fst (ArrayOfObjectsKernel A UpdateStatePoint (S, iacc))"
    by (simp add: split_kernels_apart monolithic_stress)
next
  assume h: "distinct (elements A)
        \<and> inj_on (\<lambda>(k, q). iconstitutiveMap A k q) (set (elements A) \<times> {0..<NUMQUADPTS A})"
  then have d: "distinct (elements A)"
    and i: "inj_on (\<lambda>(k, q). iconstitutiveMap A k q) (set (elements A) \<times> {0..<NUMQUADPTS A})"
    by simp_all
  show "split_kernels A B0 (S, iacc) = ArrayOfObjectsKernel A UpdateStatePoint (S, iacc)"
    by (simp add: split_kernels_apart monolithic_apart [OF i d])
qed

lemma two_point_elements:
  "elements (two_point_mesh (Suc 0) el cmap) = [el 0]"
  "elements (two_point_mesh (Suc (Suc 0)) el cmap) = [el 0, el (Suc 0)]"
  by (simp_all add: elements_def two_point_mesh_def)

lemma two_point_gradients:
  "AoO_gradients (two_point_mesh n el cmap) k q (AoO_locals (two_point_mesh n el cmap) k) =
     (zeros, (\<lambda>i j. if i = I0 \<and> j = I0 then 1 else 0))"
proof -
  have l: "AoO_locals (two_point_mesh n el cmap) k =
     ((\<lambda>a i. 0), (\<lambda>a i. if a = 0 \<and> i = I0 then 1 else 0))"
    by (auto simp add: AoO_locals_def GlobalToLocal_AoO_def gather_apply two_point_mesh_def fun_eq_iff)
  have z: "CalculateGradient_AoO zeros (\<lambda>a i. 0) dN k q m = zeros" for dN m
    by (induction m) (simp_all add: CalculateGradient_AoO_def for_upto_0 for_upto_Suc zeros_def)
  have g: "CalculateGradient_AoO zeros (\<lambda>a i. if a = 0 \<and> i = I0 then 1 else 0)
          (\<lambda>k q a i. if i = I0 then 1 else 0) k q (Suc 0) = (\<lambda>i j. if i = I0 \<and> j = I0 then 1 else 0)"
    by (auto simp add: CalculateGradient_AoO_def for_upto_Suc for_upto_0 zeros_def fun_eq_iff)
  show ?thesis
    by (simp add: AoO_gradients_def l z) (simp add: two_point_mesh_def g)
qed

lemma two_point_update:
  "AoO_update (two_point_mesh n el cmap) k q S =
     UpdateStatePoint (\<lambda>i j. if i = I0 \<and> j = I0 then 2 / 3 else 0) identity (cmap k q) q k S 1 1"
proof -
  have "point_kinematics zeros (\<lambda>i j. if i = I0 \<and> j = I0 then 1 else 0) 1 =
     ((\<lambda>i j. if i = I0 \<and> j = I0 then 2 / 3 else 0),
      det (end_of_step_F zeros (\<lambda>i j. if i = I0 \<and> j = I0 then 1 else 0)),
      Finverse (end_of_step_F zeros (\<lambda>i j. if i = I0 \<and> j = I0 then 1 else 0)))"
    by (simp add: point_kinematics_eq one_point_L [of 1 "2 / 3"])
  then show ?thesis
    by (simp add: AoO_update_def point_update_def two_point_gradients)
       (simp add: two_point_mesh_def stretch_HughesWinget)
qed

lemma stretch_update_dev:
  "idevStressData (UpdateStatePoint (\<lambda>i j. if i = I0 \<and> j = I0 then c else 0)
       identity m q k S 1 1) k q 0 = idevStressData S k q 0 + 4 * c / 3"
  by (simp add: UpdateStatePoint_def Let_def rotate_identity read_symmetric_eq
        store_symmetric_def mirrored_def deviatoric_increment_def trace_def,
      simp add: identity_def)

lemma two_point_dev:
  "idevStressData (AoO_update (two_point_mesh n el cmap) k q S) k' q' 0 =
     (if k' = k \<and> q' = q then idevStressData S k q 0 + 8 / 9 else idevStressData S k' q' 0)"
  by (cases "k' = k \<and> q' = q")
     (auto simp add: two_point_update UpdateStatePoint_dev_frame stretch_update_dev)

lemma two_point_mean:
  "imeanStress (AoO_update (two_point_mesh n el cmap) k q S) m =
     (if m = cmap k q then imeanStress S m + 2 / 3 else imeanStress S m)"
  by (simp add: two_point_update UpdateStatePoint_mean trace_def)

lemma two_point_force:
  "AoO_force (two_point_mesh n el cmap) k q S f 0 I0 =
     f 0 I0 + (idevStressData S k q 0 + imeanStress S (cmap k q))"
proof -
  let ?F = "end_of_step_F zeros (\<lambda>i j. if i = I0 \<and> j = I0 then 1 else 0)"
  have Fi: "Finverse ?F I0 I0 = 1 / 2" "Finverse ?F I0 I1 = 0" "Finverse ?F I0 I2 = 0" "det ?F = 2"
    by (simp_all add: Finverse_def cofactor_def nxt_def det_def end_of_step_F_def identity_def
        zeros_def)
  have n: "NODESPERELEM (two_point_mesh n el cmap) = Suc 0" "idetJ (two_point_mesh n el cmap) k q = 1"
    "idNdX (two_point_mesh n el cmap) k q 0 = (\<lambda>i. if i = I0 then 1 else 0)"
    "iconstitutiveMap (two_point_mesh n el cmap) k q = cmap k q"
    by (simp_all add: two_point_mesh_def)
  show ?thesis
    by (simp add: AoO_force_def two_point_gradients Integrate_AoO_def n for_upto_Suc for_upto_0
        AijBkj_def Fi assemble_TotalStress_eq mirrored_def identity_def)
qed

lemma two_point_scatter:
  "AddLocalToGlobal_AoO (nodeList_of (two_point_mesh n el cmap) k)
     (NODESPERELEM (two_point_mesh n el cmap)) f acc 0 I0 = acc 0 I0 + f 0 I0"
  by (simp add: AddLocalToGlobal_AoO_def nodeList_of_def two_point_mesh_def for_upto_Suc for_upto_0)

lemma two_point_monolithic:
  "snd (ArrayOfObjectsKernel (two_point_mesh n el cmap) UpdateStatePoint (S, iacc)) 0 I0 =
     snd (fold (\<lambda>k (S, a).
            (AoO_update (two_point_mesh n el cmap) k (Suc 0)
               (AoO_update (two_point_mesh n el cmap) k 0 S),
             a + (idevStressData (AoO_update (two_point_mesh n el cmap) k 0 S) k 0 0
                  + imeanStress (AoO_update (two_point_mesh n el cmap) k 0 S) (cmap k 0))
               + (idevStressData (AoO_update (two_point_mesh n el cmap) k (Suc 0)
                      (AoO_update (two_point_mesh n el cmap) k 0 S)) k (Suc 0) 0
                  + imeanStress (AoO_update (two_point_mesh n el cmap) k (Suc 0)
                      (AoO_update (two_point_mesh n el cmap) k 0 S)) (cmap k (Suc 0)))))
          (elements (two_point_mesh n el cmap)) (S, iacc 0 I0))"
proof -
  let ?M = "two_point_mesh n el cmap"
  have q: "NUMQUADPTS ?M = Suc (Suc 0)"
    by (simp add: two_point_mesh_def)
  have "snd (fold (AoO_element ?M UpdateStatePoint) ks (S, iacc)) 0 I0 =
     snd (fold (\<lambda>k (S, a).
            (AoO_update ?M k (Suc 0) (AoO_update ?M k 0 S),
             a + (idevStressData (AoO_update ?M k 0 S) k 0 0
                  + imeanStress (AoO_update ?M k 0 S) (cmap k 0))
               + (idevStressData (AoO_update ?M k (Suc 0) (AoO_update ?M k 0 S)) k (Suc 0) 0
                  + imeanStress (AoO_update ?M k (Suc 0) (AoO_update ?M k 0 S)) (cmap k (Suc 0)))))
          ks (S, iacc 0 I0))" for ks
  proof (induction ks arbitrary: S iacc)
    case Nil
    show ?case by simp
  next
    case (Cons k ks)
    let ?S1 = "AoO_update ?M k 0 S"
    let ?S2 = "AoO_update ?M k (Suc 0) ?S1"
    let ?f = "AoO_force ?M k (Suc 0) ?S2 (AoO_force ?M k 0 ?S1 (\<lambda>a i. 0))"
    have e: "AoO_element ?M UpdateStatePoint k (S, iacc) =
        (?S2, AddLocalToGlobal_AoO (nodeList_of ?M k) (NODESPERELEM ?M) ?f iacc)"
      by (simp add: AoO_element_form q for_upto_Suc for_upto_0)
    have v: "AddLocalToGlobal_AoO (nodeList_of ?M k) (NODESPERELEM ?M) ?f iacc 0 I0 =
        iacc 0 I0 + (idevStressData ?S1 k 0 0 + imeanStress ?S1 (cmap k 0))
          + (idevStressData ?S2 k (Suc 0) 0 + imeanStress ?S2 (cmap k (Suc 0)))"
      by (simp add: two_point_scatter two_point_force)
    show ?case
      by (simp only: fold_simps comp_apply e Cons v prod.case)
  qed
  then show ?thesis
    by (simp add: ArrayOfObjectsKernel_def forall_in_set_eq)
qed

lemma two_point_split:
  "snd (split_kernels (two_point_mesh n el cmap) B0 (S, iacc)) 0 I0 =
     fold (\<lambda>k a. a
        + (idevStressData (fold (AoO_element_update (two_point_mesh n el cmap))
               (elements (two_point_mesh n el cmap)) S) k 0 0
           + imeanStress (fold (AoO_element_update (two_point_mesh n el cmap))
               (elements (two_point_mesh n el cmap)) S) (cmap k 0))
        + (idevStressData (fold (AoO_element_update (two_point_mesh n el cmap))
               (elements (two_point_mesh n el cmap)) S) k (Suc 0) 0
           + imeanStress (fold (AoO_element_update (two_point_mesh n el cmap))
               (elements (two_point_mesh n el cmap)) S) (cmap k (Suc 0))))
       (elements (two_point_mesh n el cmap)) (iacc 0 I0)"
proof -
  let ?M = "two_point_mesh n el cmap"
  have q: "NUMQUADPTS ?M = Suc (Suc 0)"
    by (simp add: two_point_mesh_def)
  have "fold (\<lambda>k. AddLocalToGlobal_AoO (nodeList_of ?M k) (NODESPERELEM ?M)
                (AoO_element_force ?M k S')) ks iacc 0 I0 =
     fold (\<lambda>k a. a + (idevStressData S' k 0 0 + imeanStress S' (cmap k 0))
                    + (idevStressData S' k (Suc 0) 0 + imeanStress S' (cmap k (Suc 0))))
       ks (iacc 0 I0)" for ks S'
  proof (induction ks arbitrary: iacc)
    case Nil
    show ?case by simp
  next
    case (Cons k ks)
    have v: "AddLocalToGlobal_AoO (nodeList_of ?M k) (NODESPERELEM ?M)
                (AoO_element_force ?M k S') iacc 0 I0 =
        iacc 0 I0 + (idevStressData S' k 0 0 + imeanStress S' (cmap k 0))
          + (idevStressData S' k (Suc 0) 0 + imeanStress S' (cmap k (Suc 0)))"
      by (simp add: two_point_scatter AoO_element_force_def q for_upto_Suc for_upto_0
          two_point_force)
    show ?case
      by (simp only: fold_simps comp_apply Cons v)
  qed
  then show ?thesis
    by (simp add: split_kernels_apart)
qed

lemma two_point_element_update:
  "AoO_element_update (two_point_mesh n el cmap) k S =
     AoO_update (two_point_mesh n el cmap) k (Suc 0) (AoO_update (two_point_mesh n el cmap) k 0 S)"
proof -
  have "NUMQUADPTS (two_point_mesh n el cmap) = Suc (Suc 0)"
    by (simp add: two_point_mesh_def)
  then show ?thesis
    by (simp add: AoO_element_update_def for_upto_Suc for_upto_0)
qed

text \<open>
  C7, as the claim states it, fails: the accelerations are not the same for every
  input. On the mesh of one element with both quadrature points mapped to the material
  index 0, the monolithic kernel integrates the first point with the mean stress after
  one update and leaves \<open>34/9\<close> in the node's x acceleration; the split kernels
  integrate both points with the mean stress after both updates and leave \<open>40/9\<close>.
  On the mesh whose element list names the element 0 twice, with the two quadrature
  points mapped to different indices, the monolithic kernel integrates the first visit
  with the stress after one round of updates and leaves \<open>28/3\<close>; the split kernels
  integrate both visits with the stress after both rounds and leave \<open>112/9\<close>.
\<close>

theorem split_kernels_counterexample:
  "snd (ArrayOfObjectsKernel (two_point_mesh 1 (\<lambda>i. 0) (\<lambda>k q. 0)) UpdateStatePoint
          (zero_stress, (\<lambda>n i. 0))) 0 I0 = 34 / 9
   \<and> snd (split_kernels (two_point_mesh 1 (\<lambda>i. 0) (\<lambda>k q. 0)) zero_buffers
          (zero_stress, (\<lambda>n i. 0))) 0 I0 = 40 / 9
   \<and> inj_on (\<lambda>(k, q). iconstitutiveMap (two_point_mesh 2 (\<lambda>i. 0) (\<lambda>k q. q)) k q)
        (set (elements (two_point_mesh 2 (\<lambda>i. 0) (\<lambda>k q. q)))
           \<times> {0..<NUMQUADPTS (two_point_mesh 2 (\<lambda>i. 0) (\<lambda>k q. q))})
   \<and> elements (two_point_mesh 2 (\<lambda>i. 0) (\<lambda>k q. q)) = [0, 0]
   \<and> snd (ArrayOfObjectsKernel (two_point_mesh 2 (\<lambda>i. 0) (\<lambda>k q. q)) UpdateStatePoint
          (zero_stress, (\<lambda>n i. 0))) 0 I0 = 28 / 3
   \<and> snd (split_kernels (two_point_mesh 2 (\<lambda>i. 0) (\<lambda>k q. q)) zero_buffers
          (zero_stress, (\<lambda>n i. 0))) 0 I0 = 112 / 9"
proof -
  have n: "(1::nat) = Suc 0" "(2::nat) = Suc (Suc 0)" by simp_all
  have a: "snd (ArrayOfObjectsKernel (two_point_mesh 1 (\<lambda>i. 0) (\<lambda>k q. 0)) UpdateStatePoint
          (zero_stress, (\<lambda>n i. 0))) 0 I0 = 34 / 9"
    unfolding n two_point_monolithic two_point_elements
    by (simp add: two_point_dev two_point_mean zero_stress_def)
  have b: "snd (split_kernels (two_point_mesh 1 (\<lambda>i. 0) (\<lambda>k q. 0)) zero_buffers
          (zero_stress, (\<lambda>n i. 0))) 0 I0 = 40 / 9"
    unfolding n two_point_split two_point_elements
    by (simp add: two_point_element_update two_point_dev two_point_mean zero_stress_def)
  have c: "inj_on (\<lambda>(k, q). iconstitutiveMap (two_point_mesh 2 (\<lambda>i. 0) (\<lambda>k q. q)) k q)
        (set (elements (two_point_mesh 2 (\<lambda>i. 0) (\<lambda>k q. q)))
           \<times> {0..<NUMQUADPTS (two_point_mesh 2 (\<lambda>i. 0) (\<lambda>k q. q))})"
    unfolding n two_point_elements
    by (auto simp add: inj_on_def two_point_mesh_def)
  have d: "elements (two_point_mesh 2 (\<lambda>i. 0) (\<lambda>k q. q)) = [0, 0]"
    unfolding n two_point_elements by simp
  have e: "snd (ArrayOfObjectsKernel (two_point_mesh 2 (\<lambda>i. 0) (\<lambda>k q. q)) UpdateStatePoint
          (zero_stress, (\<lambda>n i. 0))) 0 I0 = 28 / 3"
    unfolding n two_point_monolithic two_point_elements
    by (simp add: two_point_dev two_point_mean zero_stress_def)
  have f: "snd (split_kernels (two_point_mesh 2 (\<lambda>i. 0) (\<lambda>k q. q)) zero_buffers
          (zero_stress, (\<lambda>n i. 0))) 0 I0 = 112 / 9"
    unfolding n two_point_split two_point_elements
    by (simp add: two_point_element_update two_point_dev two_point_mean zero_stress_def)
  from a b c d e f show ?thesis by blast
qed

theorem split_kernels_equal_monolithic_witness:
  "distinct (elements (two_point_mesh 2 (\<lambda>i. i) (\<lambda>k q. 2 * k + q)))
   \<and> inj_on (\<lambda>(k, q). iconstitutiveMap (two_point_mesh 2 (\<lambda>i. i) (\<lambda>k q. 2 * k + q)) k q)
        (set (elements (two_point_mesh 2 (\<lambda>i. i) (\<lambda>k q. 2 * k + q)))
           \<times> {0..<NUMQUADPTS (two_point_mesh 2 (\<lambda>i. i) (\<lambda>k q. 2 * k + q))})
   \<and> split_kernels (two_point_mesh 2 (\<lambda>i. i) (\<lambda>k q. 2 * k + q)) zero_buffers
         (zero_stress, (\<lambda>n i. 0)) =
       ArrayOfObjectsKernel (two_point_mesh 2 (\<lambda>i. i) (\<lambda>k q. 2 * k + q)) UpdateStatePoint
         (zero_stress, (\<lambda>n i. 0))
   \<and> snd (split_kernels (two_point_mesh 2 (\<lambda>i. i) (\<lambda>k q. 2 * k + q)) zero_buffers
         (zero_stress, (\<lambda>n i. 0))) 0 I0 = 56 / 9"
proof -
  let ?M = "two_point_mesh 2 (\<lambda>i. i) (\<lambda>k q. 2 * k + q)"
  have n: "(2::nat) = Suc (Suc 0)" by simp
  have e: "elements ?M = [0, Suc 0]"
    by (simp add: elements_def two_point_mesh_def n)
  have d: "distinct (elements ?M)"
    by (simp add: e)
  have i: "inj_on (\<lambda>(k, q). iconstitutiveMap ?M k q) (set (elements ?M) \<times> {0..<NUMQUADPTS ?M})"
    unfolding e by (auto simp add: inj_on_def two_point_mesh_def)
  have v: "snd (split_kernels ?M zero_buffers (zero_stress, (\<lambda>n i. 0))) 0 I0 = 56 / 9"
    unfolding two_point_split e
    by (simp add: two_point_element_update two_point_dev two_point_mean zero_stress_def)
  from split_kernels_equal_monolithic [of ?M zero_buffers zero_stress "\<lambda>n i. 0"] d i v
  show ?thesis by blast
qed

section \<open>The division by the time step\<close>

lemma calc_dvdX_entry:
  "calc_dvdX dUhatdX h D ty tx = dUhatdX ty tx * (1 / h)"
  unfolding calc_dvdX_def for_dim_const ..

lemma times_not_finite: "\<not> is_finite y \<Longrightarrow> \<not> is_finite (x * y)"
  by (cases x; cases y; simp add: is_finite_def times_ieee_def)

text \<open>
  C10. The loop that every kernel runs first in its kinematic block multiplies each
  entry of the incremental-displacement gradient by \<^verbatim>\<open>1.0/dt\<close> and has no guard. On
  IEEE values, with a finite gradient and a finite time step, an entry of the result is
  finite exactly when \<open>dt \<noteq> 0\<close>: it is \<open>dUhatdX/dt\<close> then, and for \<open>dt = 0\<close> it is
  infinite or not a number; with \<open>dt = 0\<close> no entry is finite, whatever the gradient.
  A nonzero time step is a precondition the kernels leave to the caller.
\<close>

theorem dt_zero_not_finite:
  "calc_dvdX (\<lambda>i j. Finite (U i j)) (Finite d) D ty tx =
     (if d = 0 then (if U ty tx = 0 then NaN else Infinite) else Finite (U ty tx / d))
   \<and> (is_finite (calc_dvdX (\<lambda>i j. Finite (U i j)) (Finite d) D ty tx) \<longleftrightarrow> d \<noteq> 0)
   \<and> is_finite (calc_dvdX G (Finite 0) D ty tx) = False"
  by (cases "G ty tx")
     (simp_all add: calc_dvdX_entry is_finite_def times_ieee_def divide_ieee_def one_ieee_def)

end
